theory Spec2Isabelle
  imports Main
begin

section \<open>Go strings and the library functions the generator calls\<close>

text \<open>
  A Go string is a sequence of bytes, modelled as \<open>string\<close> (a list of 8-bit characters).
  The functions of package \<open>strings\<close> below are the ones whose result on bytes is fixed by
  their documentation: a separator set that is ASCII only never splits inside a multi-byte
  UTF-8 sequence, so the byte-wise definitions agree with the rune-wise library.
\<close>

abbreviation tab :: string where "tab \<equiv> [CHR 0x09]"
abbreviation nl :: string where "nl \<equiv> [CHR 0x0A]"
abbreviation cr :: string where "cr \<equiv> [CHR 0x0D]"
abbreviation dq :: string where "dq \<equiv> [CHR 0x22]"
abbreviation bq :: string where "bq \<equiv> [CHR 0x60]"
abbreviation bsl :: string where "bsl \<equiv> [CHR 0x5C]"

definition HasPrefix :: "string \<Rightarrow> string \<Rightarrow> bool" where
  "HasPrefix s p = (take (length p) s = p)"

definition HasSuffix :: "string \<Rightarrow> string \<Rightarrow> bool" where
  "HasSuffix s p = (length p \<le> length s \<and> drop (length s - length p) s = p)"

definition TrimPrefix :: "string \<Rightarrow> string \<Rightarrow> string" where
  "TrimPrefix s p = (if HasPrefix s p then drop (length p) s else s)"

fun Contains :: "string \<Rightarrow> string \<Rightarrow> bool" where
  "Contains [] sub = (sub = [])"
| "Contains (c # cs) sub = (HasPrefix (c # cs) sub \<or> Contains cs sub)"

definition ContainsAny :: "string \<Rightarrow> string \<Rightarrow> bool" where
  "ContainsAny s chars = (\<exists>c \<in> set s. c \<in> set chars)"

fun Join :: "string list \<Rightarrow> string \<Rightarrow> string" where
  "Join [] sep = []"
| "Join [x] sep = x"
| "Join (x # y # ys) sep = x @ sep @ Join (y # ys) sep"

text \<open>\<open>strings.FieldsFunc\<close>: the maximal runs of bytes that are not separators.\<close>

fun FieldsFunc_from :: "(char \<Rightarrow> bool) \<Rightarrow> string \<Rightarrow> string \<Rightarrow> string list" where
  "FieldsFunc_from f cur [] = (if cur = [] then [] else [cur])"
| "FieldsFunc_from f cur (c # cs) =
     (if f c then (if cur = [] then [] else [cur]) @ FieldsFunc_from f [] cs
      else FieldsFunc_from f (cur @ [c]) cs)"

definition FieldsFunc :: "string \<Rightarrow> (char \<Rightarrow> bool) \<Rightarrow> string list" where
  "FieldsFunc s f = FieldsFunc_from f [] s"

text \<open>The verb \<open>%d\<close> of package \<open>fmt\<close> on an \<open>int\<close>: decimal digits, a minus sign first.\<close>

definition digit :: "nat \<Rightarrow> char" where
  "digit n = ''0123456789'' ! n"

fun showNat :: "nat \<Rightarrow> string" where
  "showNat n = (if n < 10 then [digit n] else showNat (n div 10) @ [digit (n mod 10)])"

declare showNat.simps [simp del]

definition fmt_d :: "int \<Rightarrow> string" where
  "fmt_d i = (if i < 0 then ''-'' @ showNat (nat (- i)) else showNat (nat i))"

section \<open>The schema entities\<close>

text \<open>
  The structs of the proto tree (declared in proto.go), with the fields that genGo.go and
  the handlers read and write, each with the type its use fixes. \<open>'f\<close> stands for Go's
  \<open>float64\<close>: the code only stores such values and prints them. The map \<open>MemberTypes\<close>
  of a simple type is read through \<open>toSortedPairs\<close> alone and stands as a list of pairs.
\<close>

record 'f Restriction =
  Enum :: "string list"
  PatternStr :: string
  HasLength :: bool
  Length :: int
  HasMinLength :: bool
  MinLength :: int
  HasMaxLength :: bool
  MaxLength :: int
  HasMin :: bool
  Min_v :: 'f
  MinExclusive :: bool
  HasMax :: bool
  Max_v :: 'f
  MaxExclusive :: bool

record 'f SimpleType =
  st_Name :: string
  st_Doc :: string
  st_Base :: string
  st_List :: bool
  st_Union :: bool
  st_MemberTypes :: "(string \<times> string) list"
  st_Restriction :: "'f Restriction"

record 'f Element =
  el_Name :: string
  el_Doc :: string
  el_Type :: string
  el_TypeRef :: string
  el_Optional :: bool
  el_Plural :: bool
  el_Restriction :: "'f Restriction"

record 'f Attribute =
  at_Name :: string
  at_Doc :: string
  at_Type :: string
  at_TypeRef :: string
  at_Optional :: bool
  at_Plural :: bool
  at_Restriction :: "'f Restriction"

datatype 'f Group = Group (g_Name: string) (g_Doc: string) (g_Ref: string) (g_Plural: bool)
  (g_Elements: "'f Element list") (g_Groups: "'f Group list")

record 'f AttributeGroup =
  ag_Name :: string
  ag_Doc :: string
  ag_Ref :: string
  ag_Attributes :: "'f Attribute list"

record 'f ComplexType =
  ct_Name :: string
  ct_Doc :: string
  ct_Base :: string
  ct_Attributes :: "'f Attribute list"
  ct_Elements :: "'f Element list"
  ct_Groups :: "'f Group list"
  ct_AttributeGroup :: "'f AttributeGroup list"

text \<open>An entry of \<open>ProtoTree\<close> (\<open>[]interface{}\<close> holding pointers to the structs above).\<close>

datatype 'f entry =
    SimpleTypeE "'f SimpleType"
  | ComplexTypeE "'f ComplexType"
  | GroupE "'f Group"
  | AttributeGroupE "'f AttributeGroup"
  | ElementE "'f Element"
  | AttributeE "'f Attribute"

datatype error = OsError string | FormatError string | ResolveError string

section \<open>What the generator takes from outside genGo.go\<close>

text \<open>
  The functions of the package that genGo.go calls and that are defined in other files
  (\<open>trimNSPrefix\<close>, \<open>getBasefromSimpleType\<close>, \<open>getBuildInTypeByLang\<close>, \<open>MakeFirstUpperCase\<close>,
  \<open>genFieldComment\<close>, \<open>toSortedPairs\<close>, the constant \<open>copyright\<close>), and the library
  functions whose result depends on Unicode tables, on floating point or on the world
  (\<open>%g\<close>, \<open>%q\<close>, \<open>strings.TrimSpace\<close>, \<open>strings.ToLower\<close>, \<open>format.Source\<close>, \<open>os.Create\<close>,
  the order in which \<open>range\<close> visits the keys of a map) are parameters: every theorem
  below holds for each value of them.
\<close>

record 'f env =
  trimNSPrefix :: "string \<Rightarrow> string"
  getBasefromSimpleType :: "string \<Rightarrow> 'f entry list \<Rightarrow> string"
  getBuildInTypeByLang :: "string \<Rightarrow> string \<Rightarrow> string \<times> bool"
  MakeFirstUpperCase :: "string \<Rightarrow> string"
  genFieldComment :: "string \<Rightarrow> string \<Rightarrow> string \<Rightarrow> string"
  toSortedPairs :: "(string \<times> string) list \<Rightarrow> (string \<times> string) list"
  copyright :: string
  fmt_g :: "'f \<Rightarrow> string"
  fmt_q :: "string \<Rightarrow> string"
  TrimSpace :: "string \<Rightarrow> string"
  ToLower :: "string \<Rightarrow> string"
  format_Source :: "string \<Rightarrow> error + string"
  os_Create :: "string \<Rightarrow> error option"
  rangeOrder :: "string list \<Rightarrow> string list"

section \<open>The declarative validator tag\<close>

definition isNumericGoType :: "string \<Rightarrow> bool" where
  "isNumericGoType t = (t \<in> set [''int'', ''int8'', ''int16'', ''int32'', ''int64'', ''uint'',
     ''uint8'', ''uint16'', ''uint32'', ''uint64'', ''float32'', ''float64''])"

text \<open>
  The loop over \<open>r.Enum\<close> in \<open>buildValidateTag\<close>: it stops at the first value holding a
  blank, a tab, a newline or a carriage return, with \<open>ok = false\<close>.
\<close>

definition enumWhitespace :: string where
  "enumWhitespace = '' '' @ tab @ nl @ cr"

fun enumScan :: "string list \<Rightarrow> string list \<Rightarrow> bool \<times> string list" where
  "enumScan [] enumVals = (True, enumVals)"
| "enumScan (ev # evs) enumVals =
     (if ContainsAny ev enumWhitespace then (False, enumVals)
      else enumScan evs (enumVals @ [ev]))"

text \<open>The slice \<open>rules\<close> of \<open>buildValidateTag\<close> as it stands before \<open>len(rules) == 0\<close> is tested.\<close>

definition buildValidateRules :: "'f env \<Rightarrow> string \<Rightarrow> 'f Restriction \<Rightarrow> bool \<Rightarrow> string list" where
  "buildValidateRules E base r optional =
    (let rules = (if optional then [''omitempty''] else []);
         isString = (base = ''string'');
         isNumeric = isNumericGoType base;
         rules =
           (if isString then
              (let rules =
                     (if HasLength r then rules @ [''len='' @ fmt_d (Length r)]
                      else
                        (let rules = (if HasMinLength r then rules @ [''min='' @ fmt_d (MinLength r)] else rules)
                         in (if HasMaxLength r then rules @ [''max='' @ fmt_d (MaxLength r)] else rules)));
                   rules =
                     (if PatternStr r \<noteq> '''' then
                        (let pattern = PatternStr r;
                             pattern = (if length pattern > 0 then ''^'' @ pattern @ ''$'' else pattern)
                         in rules @ [''matches='' @ pattern])
                      else rules)
               in (if length (Enum r) > 0 then
                     (case enumScan (Enum r) [] of
                        (ok, enumVals) \<Rightarrow>
                          if ok then rules @ [''oneof='' @ Join enumVals '' ''] else rules)
                   else rules))
            else rules)
     in (if isNumeric then
           (let rules =
                  (if HasMin r then
                     (if MinExclusive r then rules @ [''gt='' @ fmt_g E (Min_v r)]
                      else rules @ [''gte='' @ fmt_g E (Min_v r)])
                   else rules)
            in (if HasMax r then
                  (if MaxExclusive r then rules @ [''lt='' @ fmt_g E (Max_v r)]
                   else rules @ [''lte='' @ fmt_g E (Max_v r)])
                else rules))
         else rules))"

definition buildValidateTag ::
    "'f env \<Rightarrow> string \<Rightarrow> 'f Restriction option \<Rightarrow> bool \<Rightarrow> bool \<Rightarrow> string" where
  "buildValidateTag E base rp optional isSlice =
    (case rp of
       None \<Rightarrow> ''''
     | Some r \<Rightarrow>
         (let has = (length (Enum r) > 0 \<or> PatternStr r \<noteq> '''' \<or> HasLength r \<or> HasMinLength r
                      \<or> HasMaxLength r \<or> HasMin r \<or> HasMax r)
          in if \<not> has then ''''
             else
               (let rules = buildValidateRules E base r optional
                in if length rules = 0 then ''''
                   else Join (if isSlice then [''dive''] @ rules else rules) '','')))"

section \<open>The code generator's state\<close>

text \<open>
  The fields of \<open>CodeGenerator\<close> that the generator reads or writes, and the package
  variable \<open>fieldNameCount\<close>. \<open>StructAST\<close> is a Go map: only membership of a key and the
  set of its keys are ever used, so it is an association list read with \<open>map_of\<close>.
\<close>

record 'f CodeGenerator =
  File :: string
  Field :: string
  Package :: string
  ImportTime :: bool
  ImportEncodingXML :: bool
  ImportFmt :: bool
  ImportRegexp :: bool
  ProtoTree :: "'f entry list"
  StructAST :: "(string \<times> string) list"
  fieldNameCount :: "string \<Rightarrow> int"

definition goBuildinType :: "string list" where
  "goBuildinType = [''xml.Name'', ''byte'', ''[]byte'', ''bool'', ''[]bool'', ''complex64'',
     ''complex128'', ''float32'', ''float64'', ''int'', ''int8'', ''int16'', ''int32'', ''int64'',
     ''interface'', ''[]interface{}'', ''string'', ''[]string'', ''time.Time'', ''uint'', ''uint8'',
     ''uint16'', ''uint32'', ''uint64'']"

definition splitter :: "char \<Rightarrow> bool" where
  "splitter r = (r \<in> set '':.-_'')"

definition genGoFieldName ::
    "'f env \<Rightarrow> string \<Rightarrow> bool \<Rightarrow> 'f CodeGenerator \<Rightarrow> string \<times> 'f CodeGenerator" where
  "genGoFieldName E name unique gen =
    (let fieldName = concat (map (MakeFirstUpperCase E) (FieldsFunc name splitter))
     in if unique then
          (let count = fieldNameCount gen fieldName + 1;
               gen = gen\<lparr>fieldNameCount := (fieldNameCount gen)(fieldName := count)\<rparr>
           in (if count \<noteq> 1 then fieldName @ fmt_d count else fieldName, gen))
        else (fieldName, gen))"

definition genGoFieldType :: "'f env \<Rightarrow> string \<Rightarrow> string" where
  "genGoFieldType E name =
    (if name \<in> set goBuildinType then name
     else
       (let fieldType = concat (map (MakeFirstUpperCase E) (FieldsFunc name splitter))
        in if fieldType \<noteq> '''' then ''*'' @ fieldType else ''interface{}''))"

definition isGoBuiltInType :: "string \<Rightarrow> bool" where
  "isGoBuiltInType typeName = (typeName \<in> set goBuildinType)"

fun findSimpleType_loop :: "string \<Rightarrow> 'f entry list \<Rightarrow> 'f SimpleType option" where
  "findSimpleType_loop name [] = None"
| "findSimpleType_loop name (SimpleTypeE st # rest) =
     (if st_Name st = name then Some st else findSimpleType_loop name rest)"
| "findSimpleType_loop name (_ # rest) = findSimpleType_loop name rest"

definition findSimpleType :: "'f env \<Rightarrow> 'f CodeGenerator \<Rightarrow> string \<Rightarrow> 'f SimpleType option" where
  "findSimpleType E gen name = findSimpleType_loop (trimNSPrefix E name) (ProtoTree gen)"

fun findSimpleTypeByGoName_loop ::
    "'f env \<Rightarrow> 'f CodeGenerator \<Rightarrow> string \<Rightarrow> 'f entry list \<Rightarrow> 'f SimpleType option" where
  "findSimpleTypeByGoName_loop E gen goName [] = None"
| "findSimpleTypeByGoName_loop E gen goName (SimpleTypeE st # rest) =
     (if fst (genGoFieldName E (st_Name st) False gen) = goName then Some st
      else findSimpleTypeByGoName_loop E gen goName rest)"
| "findSimpleTypeByGoName_loop E gen goName (_ # rest) = findSimpleTypeByGoName_loop E gen goName rest"

definition findSimpleTypeByGoName ::
    "'f env \<Rightarrow> 'f CodeGenerator \<Rightarrow> string \<Rightarrow> 'f SimpleType option" where
  "findSimpleTypeByGoName E gen goName = findSimpleTypeByGoName_loop E gen goName (ProtoTree gen)"

definition hasRestrictions :: "'f Restriction option \<Rightarrow> bool" where
  "hasRestrictions rp =
    (case rp of
       None \<Rightarrow> False
     | Some r \<Rightarrow> length (Enum r) > 0 \<or> PatternStr r \<noteq> '''' \<or> HasLength r \<or> HasMinLength r
                  \<or> HasMaxLength r \<or> HasMin r \<or> HasMax r)"

section \<open>Method-form validators\<close>

text \<open>The text \<open>\tif COND { return fmt.Errorf("MSG") }\n\<close> that most checks are written as.\<close>

definition checkLine :: "string \<Rightarrow> string \<Rightarrow> string" where
  "checkLine cond msg =
     tab @ ''if '' @ cond @ '' { return fmt.Errorf('' @ dq @ msg @ dq @ '') }'' @ nl"

text \<open>The entries \<open>\t\t\t%q: {},\n\<close> of the set literal, one for each enum value.\<close>

definition enumEntries :: "'f env \<Rightarrow> string list \<Rightarrow> string" where
  "enumEntries E evs = concat (map (\<lambda>ev. tab @ tab @ tab @ fmt_q E ev @ '': {},'' @ nl) evs)"

text \<open>
  The check of membership in the enum, as both validators write it: a block that builds
  the set literal \<open>allowed\<close> and looks the value \<open>string(EXPR)\<close> up in it.
\<close>

definition membershipCheck :: "'f env \<Rightarrow> string \<Rightarrow> string \<Rightarrow> string list \<Rightarrow> string" where
  "membershipCheck E expr subject evs =
     tab @ ''{'' @ nl @ tab @ tab @ ''allowed := map[string]struct{}{'' @ nl
       @ enumEntries E evs
       @ tab @ tab @ ''}'' @ nl
       @ tab @ tab @ ''if _, ok := allowed[string('' @ expr @ '')]; !ok { return fmt.Errorf(''
       @ dq @ subject @ '' must be one of enum values'' @ dq @ '') }'' @ nl
       @ tab @ ''}'' @ nl"

definition generateSimpleTypeValidator ::
    "'f env \<Rightarrow> string \<Rightarrow> string \<Rightarrow> 'f Restriction option \<Rightarrow> 'f CodeGenerator \<Rightarrow> 'f CodeGenerator" where
  "generateSimpleTypeValidator E typeName base rp gen =
    (case rp of
       None \<Rightarrow> gen
     | Some r \<Rightarrow>
        (let has = (length (Enum r) > 0 \<or> PatternStr r \<noteq> '''' \<or> HasLength r \<or> HasMinLength r
                     \<or> HasMaxLength r \<or> HasMin r \<or> HasMax r)
         in if \<not> has then gen
            else
             (let b = nl @ ''func (v '' @ typeName @ '') Validate() error {'' @ nl;
                  needsFmt = False;
                  isString = (base = ''string'');
                  isNumeric = isNumericGoType base;
                  (b, needsFmt, gen) =
                    (if isString then
                       (let (b, needsFmt) =
                              (if HasLength r then
                                 (b @ checkLine (''len(string(v)) != '' @ fmt_d (Length r))
                                        (typeName @ '' length must be exactly '' @ fmt_d (Length r)), True)
                               else
                                 (let (b, needsFmt) =
                                        (if HasMinLength r then
                                           (b @ checkLine (''len(string(v)) < '' @ fmt_d (MinLength r))
                                                  (typeName @ '' length must be >= '' @ fmt_d (MinLength r)), True)
                                         else (b, needsFmt))
                                  in (if HasMaxLength r then
                                        (b @ checkLine (''len(string(v)) > '' @ fmt_d (MaxLength r))
                                               (typeName @ '' length must be <= '' @ fmt_d (MaxLength r)), True)
                                      else (b, needsFmt))));
                            (b, needsFmt, gen) =
                              (if PatternStr r \<noteq> '''' then
                                 (b @ tab @ ''if ok := regexp.MustCompile('' @ fmt_q E (PatternStr r)
                                    @ '').MatchString(string(v)); !ok { return fmt.Errorf('' @ dq
                                    @ ''%s does not match pattern: %q'' @ dq @ '', '' @ fmt_q E typeName
                                    @ '', '' @ fmt_q E (PatternStr r) @ '') }'' @ nl,
                                  True, gen\<lparr>ImportRegexp := True\<rparr>)
                               else (b, needsFmt, gen))
                        in (if length (Enum r) > 0 then
                              (b @ membershipCheck E ''v'' typeName (Enum r), True, gen)
                            else (b, needsFmt, gen)))
                     else (b, needsFmt, gen));
                  (b, needsFmt) =
                    (if isNumeric \<and> (HasMin r \<or> HasMax r) then
                       (let b = b @ tab @ ''vv := float64(v)'' @ nl;
                            (b, needsFmt) =
                              (if HasMin r then
                                 (if MinExclusive r then
                                    b @ checkLine (''vv <= '' @ fmt_g E (Min_v r))
                                          (typeName @ '' must be > '' @ fmt_g E (Min_v r))
                                  else
                                    b @ checkLine (''vv < '' @ fmt_g E (Min_v r))
                                          (typeName @ '' must be >= '' @ fmt_g E (Min_v r)), True)
                               else (b, needsFmt))
                        in (if HasMax r then
                              (if MaxExclusive r then
                                 b @ checkLine (''vv >= '' @ fmt_g E (Max_v r))
                                       (typeName @ '' must be < '' @ fmt_g E (Max_v r))
                               else
                                 b @ checkLine (''vv > '' @ fmt_g E (Max_v r))
                                       (typeName @ '' must be <= '' @ fmt_g E (Max_v r)), True)
                            else (b, needsFmt)))
                     else (b, needsFmt));
                  b = b @ tab @ ''return nil'' @ nl @ ''}'';
                  gen = (if needsFmt then gen\<lparr>ImportFmt := True\<rparr> else gen)
              in gen\<lparr>Field := Field gen @ b @ nl\<rparr>)))"

text \<open>
  \<open>generateRestrictionChecks\<close> returns the text of the checks; its one effect on the
  generator is \<open>ImportRegexp\<close>.
\<close>

definition generateRestrictionChecks ::
    "'f env \<Rightarrow> string \<Rightarrow> string \<Rightarrow> string \<Rightarrow> 'f Restriction \<Rightarrow> 'f CodeGenerator
      \<Rightarrow> string \<times> 'f CodeGenerator" where
  "generateRestrictionChecks E varExpr base subjectName r gen =
    (let b = '''';
         isString = (base = ''string'');
         isNumeric = isNumericGoType base;
         (b, gen) =
           (if isString then
              (let b =
                     (if HasLength r then
                        b @ checkLine (''len(string('' @ varExpr @ '')) != '' @ fmt_d (Length r))
                              (subjectName @ '' length must be exactly '' @ fmt_d (Length r))
                      else
                        (let b =
                               (if HasMinLength r then
                                  b @ checkLine (''len(string('' @ varExpr @ '')) < '' @ fmt_d (MinLength r))
                                        (subjectName @ '' length must be >= '' @ fmt_d (MinLength r))
                                else b)
                         in (if HasMaxLength r then
                               b @ checkLine (''len(string('' @ varExpr @ '')) > '' @ fmt_d (MaxLength r))
                                     (subjectName @ '' length must be <= '' @ fmt_d (MaxLength r))
                             else b)));
                   (b, gen) =
                     (if PatternStr r \<noteq> '''' then
                        (b @ tab @ ''if ok := regexp.MustCompile('' @ fmt_q E (PatternStr r)
                           @ '').MatchString(string('' @ varExpr @ '')); !ok { return fmt.Errorf('' @ dq
                           @ subjectName @ '' does not match pattern: %q'' @ dq @ '', ''
                           @ fmt_q E (PatternStr r) @ '') }'' @ nl,
                         gen\<lparr>ImportRegexp := True\<rparr>)
                      else (b, gen))
               in (if length (Enum r) > 0 then
                     (b @ membershipCheck E varExpr subjectName (Enum r), gen)
                   else (b, gen)))
            else (b, gen));
         b =
           (if isNumeric then
              (if HasMin r \<or> HasMax r then
                 (let b = b @ tab @ ''vv := float64('' @ varExpr @ '')'' @ nl;
                      b =
                        (if HasMin r then
                           (if MinExclusive r then
                              b @ checkLine (''vv <= '' @ fmt_g E (Min_v r))
                                    (subjectName @ '' must be > '' @ fmt_g E (Min_v r))
                            else
                              b @ checkLine (''vv < '' @ fmt_g E (Min_v r))
                                    (subjectName @ '' must be >= '' @ fmt_g E (Min_v r)))
                         else b)
                  in (if HasMax r then
                        (if MaxExclusive r then
                           b @ checkLine (''vv >= '' @ fmt_g E (Max_v r))
                                 (subjectName @ '' must be < '' @ fmt_g E (Max_v r))
                         else
                           b @ checkLine (''vv > '' @ fmt_g E (Max_v r))
                                 (subjectName @ '' must be <= '' @ fmt_g E (Max_v r)))
                      else b))
               else b)
            else b)
     in (b, gen))"

section \<open>Emitting declarations\<close>

text \<open>
  \<open>ensureNamedType\<close>: emits the declaration of a named simple type that a field refers to,
  or, for the two output files the code names, a stand-in alias.
\<close>

definition ensureNamedType :: "'f env \<Rightarrow> string \<Rightarrow> 'f CodeGenerator \<Rightarrow> 'f CodeGenerator" where
  "ensureNamedType E xsdOrGoName gen =
    (let name = trimNSPrefix E xsdOrGoName
     in if name = '''' then gen
        else
         (case getBuildInTypeByLang E name ''Go'' of
            (bt, ok) \<Rightarrow>
              if ok \<and> bt \<noteq> '''' then gen
              else
               (let st = findSimpleType E gen name;
                    st = (if st = None then findSimpleTypeByGoName E gen name else st);
                    st = (if st = None \<and> length name > 0
                          then findSimpleType E gen (ToLower E (take 1 name) @ drop 1 name) else st)
                in case st of
                     None \<Rightarrow>
                       if Contains (File gen) ''commonTypes.go'' then
                         (let key = name
                          in if map_of (StructAST gen) key \<noteq> None then gen
                             else
                              (let base = getBasefromSimpleType E name (ProtoTree gen);
                                   base =
                                     (if base = name \<or> base = '''' then
                                        (case getBuildInTypeByLang E name ''Go'' of
                                           (bt, ok) \<Rightarrow> if ok \<and> bt \<noteq> '''' then bt else ''string'')
                                      else base);
                                   declType = genGoFieldType E base;
                                   declType = (if HasPrefix declType ''*'' then TrimPrefix declType ''*''
                                               else declType);
                                   content = '' '' @ declType @ nl;
                                   gen = gen\<lparr>StructAST := (key, content) # StructAST gen\<rparr>;
                                   (fieldName, gen) = genGoFieldName E name True gen
                               in gen\<lparr>Field := Field gen @ genFieldComment E fieldName '''' ''//''
                                         @ ''type '' @ fieldName @ content\<rparr>))
                       else if Contains (File gen) ''trainOperation.go'' then
                         (let goName = fst (genGoFieldName E name False gen)
                          in if goName = ''TSendingType'' \<or> goName = ''TSendingTypeSpecial'' then
                               (let key = goName
                                in if map_of (StructAST gen) key = None then
                                     (let content = '' int'' @ nl;
                                          gen = gen\<lparr>StructAST := (key, content) # StructAST gen\<rparr>
                                      in gen\<lparr>Field := Field gen @ genFieldComment E key '''' ''//''
                                                @ ''type '' @ key @ content\<rparr>)
                                   else gen)
                             else gen)
                       else gen
                   | Some st \<Rightarrow>
                       (let key = st_Name st
                        in if map_of (StructAST gen) key \<noteq> None then gen
                           else
                            (let base = getBasefromSimpleType E (trimNSPrefix E (st_Base st)) (ProtoTree gen);
                                 content = '' '' @ genGoFieldType E base @ nl;
                                 gen = gen\<lparr>StructAST := (key, content) # StructAST gen\<rparr>;
                                 (fieldName, gen) = genGoFieldName E (st_Name st) True gen;
                                 gen = gen\<lparr>Field := Field gen @ genFieldComment E fieldName (st_Doc st) ''//''
                                          @ ''type '' @ fieldName @ content\<rparr>
                             in generateSimpleTypeValidator E fieldName base (Some (st_Restriction st)) gen)))))"

text \<open>The body of the loop over the sorted member types of a union, in \<open>GoSimpleType\<close>.\<close>

definition GoSimpleType_member ::
    "'f env \<Rightarrow> string \<times> string \<Rightarrow> 'f CodeGenerator \<times> string \<Rightarrow> 'f CodeGenerator \<times> string" where
  "GoSimpleType_member E member gc =
    (case gc of
       (gen, content) \<Rightarrow>
        (let memberName = fst member;
             memberType = snd member;
             gen = ensureNamedType E memberName gen;
             memberType = (if memberType = '''' then getBasefromSimpleType E memberName (ProtoTree gen)
                           else memberType)
         in (gen, content @ tab @ fst (genGoFieldName E memberName False gen) @ tab
                    @ genGoFieldType E memberType @ nl)))"

definition GoSimpleType :: "'f env \<Rightarrow> 'f SimpleType \<Rightarrow> 'f CodeGenerator \<Rightarrow> 'f CodeGenerator" where
  "GoSimpleType E v gen =
    (if st_List v \<and> map_of (StructAST gen) (st_Name v) = None then
       (let fieldType = genGoFieldType E
                          (getBasefromSimpleType E (trimNSPrefix E (st_Base v)) (ProtoTree gen));
            gen = (if fieldType = ''time.Time'' then gen\<lparr>ImportTime := True\<rparr> else gen);
            content = '' []'' @ genGoFieldType E fieldType @ nl;
            gen = gen\<lparr>StructAST := (st_Name v, content) # StructAST gen\<rparr>;
            (fieldName, gen) = genGoFieldName E (st_Name v) True gen
        in gen\<lparr>Field := Field gen @ genFieldComment E fieldName (st_Doc v) ''//''
                  @ ''type '' @ fieldName @ content\<rparr>)
     else if st_Union v \<and> length (st_MemberTypes v) > 0 then
       (if map_of (StructAST gen) (st_Name v) = None then
          (let content = '' struct {'' @ nl;
               (fieldName, gen) = genGoFieldName E (st_Name v) True gen;
               (gen, content) =
                 (if fieldName \<noteq> st_Name v then
                    (gen\<lparr>ImportEncodingXML := True\<rparr>,
                     content @ tab @ ''XMLName'' @ tab @ ''xml.Name'' @ tab @ bq @ ''xml:'' @ dq
                       @ st_Name v @ dq @ bq @ nl)
                  else (gen, content));
               (gen, content) =
                 fold (GoSimpleType_member E) (toSortedPairs E (st_MemberTypes v)) (gen, content);
               content = content @ ''}'' @ nl;
               gen = gen\<lparr>StructAST := (st_Name v, content) # StructAST gen\<rparr>
           in gen\<lparr>Field := Field gen @ genFieldComment E fieldName (st_Doc v) ''//''
                     @ ''type '' @ fieldName @ content\<rparr>)
        else gen)
     else if map_of (StructAST gen) (st_Name v) = None then
       (let base = getBasefromSimpleType E (trimNSPrefix E (st_Base v)) (ProtoTree gen);
            content = '' '' @ genGoFieldType E base @ nl;
            gen = gen\<lparr>StructAST := (st_Name v, content) # StructAST gen\<rparr>;
            (fieldName, gen) = genGoFieldName E (st_Name v) True gen;
            gen = gen\<lparr>Field := Field gen @ genFieldComment E fieldName (st_Doc v) ''//''
                     @ ''type '' @ fieldName @ content\<rparr>
        in generateSimpleTypeValidator E fieldName base (Some (st_Restriction v)) gen)
     else gen)"

section \<open>The validator of a complex type\<close>

text \<open>The bodies of the two loops of \<open>generateComplexTypeValidator\<close>, over builder and generator.\<close>

definition generateComplexTypeValidator_attribute ::
    "'f env \<Rightarrow> 'f Attribute \<Rightarrow> string \<times> 'f CodeGenerator \<Rightarrow> string \<times> 'f CodeGenerator" where
  "generateComplexTypeValidator_attribute E a bg =
    (case bg of
       (b, gen) \<Rightarrow>
        (let r = at_Restriction a
         in if \<not> hasRestrictions (Some r) then (b, gen)
            else
             (let fieldName = fst (genGoFieldName E (at_Name a) False gen) @ ''Attr'';
                  base = getBasefromSimpleType E (trimNSPrefix E (at_Type a)) (ProtoTree gen)
              in if at_Optional a then
                   (let b = b @ tab @ ''if m.'' @ fieldName @ '' != nil {'' @ nl;
                        (checks, gen) = generateRestrictionChecks E (''*m.'' @ fieldName) base fieldName r gen
                    in (b @ checks @ tab @ ''}'' @ nl, gen))
                 else
                   (let (checks, gen) = generateRestrictionChecks E (''m.'' @ fieldName) base fieldName r gen
                    in (b @ checks, gen)))))"

definition generateComplexTypeValidator_element ::
    "'f env \<Rightarrow> 'f Element \<Rightarrow> string \<times> 'f CodeGenerator \<Rightarrow> string \<times> 'f CodeGenerator" where
  "generateComplexTypeValidator_element E e bg =
    (case bg of
       (b, gen) \<Rightarrow>
        (let r = el_Restriction e
         in if \<not> hasRestrictions (Some r) then (b, gen)
            else
             (let fieldName = fst (genGoFieldName E (el_Name e) False gen);
                  base = getBasefromSimpleType E (trimNSPrefix E (el_Type e)) (ProtoTree gen)
              in if el_Plural e then
                   (let b = b @ tab @ ''for _, it := range m.'' @ fieldName @ '' {'' @ nl;
                        (checks, gen) = generateRestrictionChecks E ''it'' base fieldName r gen
                    in (b @ checks @ tab @ ''}'' @ nl, gen))
                 else if el_Optional e then
                   (let b = b @ tab @ ''if m.'' @ fieldName @ '' != nil {'' @ nl;
                        (checks, gen) = generateRestrictionChecks E (''*m.'' @ fieldName) base fieldName r gen
                    in (b @ checks @ tab @ ''}'' @ nl, gen))
                 else
                   (let (checks, gen) = generateRestrictionChecks E (''m.'' @ fieldName) base fieldName r gen
                    in (b @ checks, gen)))))"

definition generateComplexTypeValidator ::
    "'f env \<Rightarrow> string \<Rightarrow> 'f ComplexType \<Rightarrow> 'f CodeGenerator \<Rightarrow> 'f CodeGenerator" where
  "generateComplexTypeValidator E typeName v gen =
    (let any = (\<exists>a \<in> set (ct_Attributes v). hasRestrictions (Some (at_Restriction a)));
         any = (if \<not> any then (\<exists>e \<in> set (ct_Elements v). hasRestrictions (Some (el_Restriction e)))
                else any)
     in if \<not> any then gen
        else
         (let gen = gen\<lparr>ImportFmt := True\<rparr>;
              b = nl @ ''func (m *'' @ typeName @ '') Validate() error {'' @ nl
                    @ tab @ ''if m == nil { return nil }'' @ nl;
              (b, gen) = fold (generateComplexTypeValidator_attribute E) (ct_Attributes v) (b, gen);
              (b, gen) = fold (generateComplexTypeValidator_element E) (ct_Elements v) (b, gen);
              b = b @ tab @ ''return nil'' @ nl @ ''}''
          in gen\<lparr>Field := Field gen @ b @ nl\<rparr>))"

section \<open>Complex types, groups, elements and attributes\<close>

text \<open>
  The bodies of the four loops of \<open>GoComplexType\<close>. Each takes the generator and the text
  \<open>content\<close> of the struct so far, and returns both: \<open>ensureNamedType\<close> writes to
  \<open>gen.Field\<close> while the struct is still being assembled in \<open>content\<close>. The line of a
  field is \<open>\tNAME\tTYPE\t\<close>, then the tag between backquotes.
\<close>

definition GoComplexType_attrGroup ::
    "'f env \<Rightarrow> 'f AttributeGroup \<Rightarrow> 'f CodeGenerator \<times> string \<Rightarrow> 'f CodeGenerator \<times> string" where
  "GoComplexType_attrGroup E attrGroup gc =
    (case gc of
       (gen, content) \<Rightarrow>
        (let fieldType = getBasefromSimpleType E (trimNSPrefix E (ag_Ref attrGroup)) (ProtoTree gen);
             gen = (if fieldType = ''time.Time'' then gen\<lparr>ImportTime := True\<rparr> else gen)
         in (gen, content @ tab @ fst (genGoFieldName E (ag_Name attrGroup) False gen) @ tab
                    @ genGoFieldType E fieldType @ nl)))"

text \<open>
  The choice of the Go type of an attribute (the first \<open>if\<close> of the loop body): the pair
  of \<open>base\<close> and \<open>fieldType\<close>.
\<close>

definition attributeTypeSelection :: "'f env \<Rightarrow> 'f CodeGenerator \<Rightarrow> 'f Attribute \<Rightarrow> string \<times> string" where
  "attributeTypeSelection E gen attribute =
    (case findSimpleType E gen (trimNSPrefix E (at_TypeRef attribute)) of
       Some st \<Rightarrow>
         (getBasefromSimpleType E (trimNSPrefix E (st_Base st)) (ProtoTree gen),
          fst (genGoFieldName E (st_Name st) False gen))
     | None \<Rightarrow>
         (let resolved = TrimSpace E (at_Type attribute);
              resolved =
                (if resolved = '''' \<and> at_TypeRef attribute \<noteq> '''' then
                   (case getBuildInTypeByLang E (trimNSPrefix E (at_TypeRef attribute)) ''Go'' of
                      (bt, ok) \<Rightarrow>
                        if ok \<and> bt \<noteq> '''' then bt
                        else getBasefromSimpleType E (trimNSPrefix E (at_TypeRef attribute))
                               (ProtoTree gen))
                 else resolved);
              resolved =
                (if resolved = '''' then
                   getBasefromSimpleType E (trimNSPrefix E (at_Type attribute)) (ProtoTree gen)
                 else resolved)
          in (resolved, genGoFieldType E resolved)))"

text \<open>
  The rest of the loop body up to the line it appends: the generator, and the Go type
  and the tag that the line is written with.
\<close>

definition GoComplexType_attributeField ::
    "'f env \<Rightarrow> 'f Attribute \<Rightarrow> 'f CodeGenerator \<Rightarrow> 'f CodeGenerator \<times> string \<times> string" where
  "GoComplexType_attributeField E attribute gen =
    (let gen = ensureNamedType E (at_TypeRef attribute) gen;
         gen = ensureNamedType E (at_Type attribute) gen;
         (base, fieldType) = attributeTypeSelection E gen attribute;
         (fieldType, optional) =
           (if at_Optional attribute then
              (if \<not> HasPrefix fieldType ''*'' then (''*'' @ fieldType, '''')
               else (fieldType, '',omitempty''))
            else (fieldType, ''''));
         gen = (if fieldType = ''time.Time'' then gen\<lparr>ImportTime := True\<rparr> else gen);
         r = at_Restriction attribute;
         (r, base) =
           (if \<not> hasRestrictions (Some r) then
              (case findSimpleType E gen (trimNSPrefix E (at_TypeRef attribute)) of
                 Some st \<Rightarrow>
                   (st_Restriction st,
                    getBasefromSimpleType E (trimNSPrefix E (st_Base st)) (ProtoTree gen))
               | None \<Rightarrow>
                   (case findSimpleType E gen (trimNSPrefix E (at_Type attribute)) of
                      Some st2 \<Rightarrow>
                        (st_Restriction st2,
                         getBasefromSimpleType E (trimNSPrefix E (st_Base st2)) (ProtoTree gen))
                    | None \<Rightarrow> (r, base)))
            else (r, base));
         vtag = buildValidateTag E base (Some r) (at_Optional attribute) False;
         tag = ''xml:'' @ dq @ at_Name attribute @ '',attr'' @ optional @ dq;
         tag = (if vtag \<noteq> '''' then tag @ '' validate:'' @ dq @ vtag @ dq else tag)
     in (gen, fieldType, tag))"

definition GoComplexType_attribute ::
    "'f env \<Rightarrow> 'f Attribute \<Rightarrow> 'f CodeGenerator \<times> string \<Rightarrow> 'f CodeGenerator \<times> string" where
  "GoComplexType_attribute E attribute gc =
    (case gc of
       (gen, content) \<Rightarrow>
         (case GoComplexType_attributeField E attribute gen of
            (gen, fieldType, tag) \<Rightarrow>
              (gen, content @ tab @ fst (genGoFieldName E (at_Name attribute) False gen) @ ''Attr''
                      @ tab @ fieldType @ tab @ bq @ tag @ bq @ nl)))"

definition GoComplexType_group ::
    "'f env \<Rightarrow> 'f Group \<Rightarrow> 'f CodeGenerator \<times> string \<Rightarrow> 'f CodeGenerator \<times> string" where
  "GoComplexType_group E grp gc =
    (case gc of
       (gen, content) \<Rightarrow>
        (let gen = ensureNamedType E (g_Ref grp) gen;
             fieldType = genGoFieldType E
                           (getBasefromSimpleType E (trimNSPrefix E (g_Ref grp)) (ProtoTree gen));
             fieldType = (if g_Plural grp then ''[]'' @ fieldType else fieldType)
         in (gen, content @ tab @ fst (genGoFieldName E (g_Name grp) False gen) @ tab
                    @ fieldType @ nl)))"

text \<open>The same three steps for an element.\<close>

definition elementTypeSelection :: "'f env \<Rightarrow> 'f CodeGenerator \<Rightarrow> 'f Element \<Rightarrow> string \<times> string" where
  "elementTypeSelection E gen element =
    (case findSimpleType E gen (trimNSPrefix E (el_TypeRef element)) of
       Some st \<Rightarrow>
         (getBasefromSimpleType E (trimNSPrefix E (st_Base st)) (ProtoTree gen),
          fst (genGoFieldName E (st_Name st) False gen))
     | None \<Rightarrow>
         (let resolved = TrimSpace E (el_Type element);
              resolved =
                (if resolved = '''' \<and> el_TypeRef element \<noteq> '''' then
                   (case getBuildInTypeByLang E (trimNSPrefix E (el_TypeRef element)) ''Go'' of
                      (bt, ok) \<Rightarrow>
                        if ok \<and> bt \<noteq> '''' then bt
                        else getBasefromSimpleType E (trimNSPrefix E (el_TypeRef element))
                               (ProtoTree gen))
                 else resolved);
              resolved =
                (if resolved = '''' then
                   getBasefromSimpleType E (trimNSPrefix E (el_Type element)) (ProtoTree gen)
                 else resolved)
          in (resolved, genGoFieldType E resolved)))"

definition GoComplexType_elementField ::
    "'f env \<Rightarrow> 'f Element \<Rightarrow> 'f CodeGenerator \<Rightarrow> 'f CodeGenerator \<times> string \<times> string" where
  "GoComplexType_elementField E element gen =
    (let gen = ensureNamedType E (el_TypeRef element) gen;
         (base, fieldType) = elementTypeSelection E gen element;
         fieldType = (if el_Plural element then ''[]'' @ fieldType else fieldType);
         (fieldType, optional) =
           (if el_Optional element then
              (if \<not> el_Plural element \<and> \<not> HasPrefix fieldType ''*'' then ''*'' @ fieldType
               else fieldType,
               '',omitempty'')
            else (fieldType, ''''));
         gen = (if fieldType = ''time.Time'' then gen\<lparr>ImportTime := True\<rparr> else gen);
         r = el_Restriction element;
         (r, base) =
           (if \<not> hasRestrictions (Some r) then
              (case findSimpleType E gen (trimNSPrefix E (el_TypeRef element)) of
                 Some st \<Rightarrow>
                   (st_Restriction st,
                    getBasefromSimpleType E (trimNSPrefix E (st_Base st)) (ProtoTree gen))
               | None \<Rightarrow>
                   (case findSimpleType E gen (trimNSPrefix E (el_Type element)) of
                      Some st2 \<Rightarrow>
                        (st_Restriction st2,
                         getBasefromSimpleType E (trimNSPrefix E (st_Base st2)) (ProtoTree gen))
                    | None \<Rightarrow> (r, base)))
            else (r, base));
         vtag = buildValidateTag E base (Some r) (el_Optional element) (el_Plural element);
         tag = ''xml:'' @ dq @ el_Name element @ optional @ dq;
         tag = (if vtag \<noteq> '''' then tag @ '' validate:'' @ dq @ vtag @ dq else tag)
     in (gen, fieldType, tag))"

definition GoComplexType_element ::
    "'f env \<Rightarrow> 'f Element \<Rightarrow> 'f CodeGenerator \<times> string \<Rightarrow> 'f CodeGenerator \<times> string" where
  "GoComplexType_element E element gc =
    (case gc of
       (gen, content) \<Rightarrow>
         (case GoComplexType_elementField E element gen of
            (gen, fieldType, tag) \<Rightarrow>
              (gen, content @ tab @ fst (genGoFieldName E (el_Name element) False gen)
                      @ tab @ fieldType @ tab @ bq @ tag @ bq @ nl)))"

definition GoComplexType :: "'f env \<Rightarrow> 'f ComplexType \<Rightarrow> 'f CodeGenerator \<Rightarrow> 'f CodeGenerator" where
  "GoComplexType E v gen =
    (if map_of (StructAST gen) (ct_Name v) = None then
       (let content = '' struct {'' @ nl;
            (fieldName, gen) = genGoFieldName E (ct_Name v) True gen;
            (gen, content) =
              (if fieldName \<noteq> ct_Name v then
                 (gen\<lparr>ImportEncodingXML := True\<rparr>,
                  content @ tab @ ''XMLName'' @ tab @ ''xml.Name'' @ tab @ bq @ ''xml:'' @ dq
                    @ ct_Name v @ dq @ bq @ nl)
               else (gen, content));
            (gen, content) = fold (GoComplexType_attrGroup E) (ct_AttributeGroup v) (gen, content);
            (gen, content) = fold (GoComplexType_attribute E) (ct_Attributes v) (gen, content);
            (gen, content) = fold (GoComplexType_group E) (ct_Groups v) (gen, content);
            (gen, content) = fold (GoComplexType_element E) (ct_Elements v) (gen, content);
            (gen, content) =
              (if length (ct_Base v) > 0 then
                 (if isGoBuiltInType (ct_Base v) then
                    (gen, content @ tab @ ''Value'' @ tab @ genGoFieldType E (ct_Base v) @ tab @ bq
                            @ ''xml:'' @ dq @ '',chardata'' @ dq @ bq @ nl)
                  else
                    (let gen = ensureNamedType E (ct_Base v) gen
                     in (gen, content @ tab @ genGoFieldType E (ct_Base v) @ nl)))
               else (gen, content));
            content = content @ ''}'' @ nl;
            gen = gen\<lparr>StructAST := (ct_Name v, content) # StructAST gen\<rparr>;
            gen = gen\<lparr>Field := Field gen @ genFieldComment E fieldName (ct_Doc v) ''//''
                     @ ''type '' @ fieldName @ content\<rparr>
        in generateComplexTypeValidator E fieldName v gen)
     else gen)"

text \<open>The bodies of the loops of \<open>GoGroup\<close> and \<open>GoAttributeGroup\<close>.\<close>

definition GoGroup_element ::
    "'f env \<Rightarrow> 'f Element \<Rightarrow> 'f CodeGenerator \<times> string \<Rightarrow> 'f CodeGenerator \<times> string" where
  "GoGroup_element E element gc =
    (case gc of
       (gen, content) \<Rightarrow>
        (let gen = ensureNamedType E (el_TypeRef element) gen;
             gen = ensureNamedType E (el_Type element) gen;
             plural = (if el_Plural element then ''[]'' else '''')
         in (gen, content @ tab @ fst (genGoFieldName E (el_Name element) False gen) @ tab @ plural
                    @ genGoFieldType E
                        (getBasefromSimpleType E (trimNSPrefix E (el_Type element)) (ProtoTree gen))
                    @ nl)))"

definition GoGroup_group :: "'f env \<Rightarrow> 'f CodeGenerator \<Rightarrow> 'f Group \<Rightarrow> string \<Rightarrow> string" where
  "GoGroup_group E gen grp content =
    (let plural = (if g_Plural grp then ''[]'' else '''')
     in content @ tab @ fst (genGoFieldName E (g_Name grp) False gen) @ tab @ plural
          @ genGoFieldType E (getBasefromSimpleType E (trimNSPrefix E (g_Ref grp)) (ProtoTree gen))
          @ nl)"

definition GoGroup :: "'f env \<Rightarrow> 'f Group \<Rightarrow> 'f CodeGenerator \<Rightarrow> 'f CodeGenerator" where
  "GoGroup E v gen =
    (if map_of (StructAST gen) (g_Name v) = None then
       (let content = '' struct {'' @ nl;
            (fieldName, gen) = genGoFieldName E (g_Name v) True gen;
            (gen, content) =
              (if fieldName \<noteq> g_Name v then
                 (gen\<lparr>ImportEncodingXML := True\<rparr>,
                  content @ tab @ ''XMLName'' @ tab @ ''xml.Name'' @ tab @ bq @ ''xml:'' @ dq
                    @ g_Name v @ dq @ bq @ nl)
               else (gen, content));
            (gen, content) = fold (GoGroup_element E) (g_Elements v) (gen, content);
            content = fold (GoGroup_group E gen) (g_Groups v) content;
            content = content @ ''}'' @ nl;
            gen = gen\<lparr>StructAST := (g_Name v, content) # StructAST gen\<rparr>
        in gen\<lparr>Field := Field gen @ genFieldComment E fieldName (g_Doc v) ''//''
                  @ ''type '' @ fieldName @ content\<rparr>)
     else gen)"

definition GoAttributeGroup_attribute ::
    "'f env \<Rightarrow> 'f Attribute \<Rightarrow> 'f CodeGenerator \<times> string \<Rightarrow> 'f CodeGenerator \<times> string" where
  "GoAttributeGroup_attribute E attribute gc =
    (case gc of
       (gen, content) \<Rightarrow>
        (let gen = ensureNamedType E (at_TypeRef attribute) gen;
             gen = ensureNamedType E (at_Type attribute) gen;
             base = getBasefromSimpleType E (trimNSPrefix E (at_Type attribute)) (ProtoTree gen);
             optional = (if at_Optional attribute then '',omitempty'' else '''');
             r = at_Restriction attribute;
             (r, base) =
               (if \<not> hasRestrictions (Some r) then
                  (case findSimpleType E gen (trimNSPrefix E (at_TypeRef attribute)) of
                     Some st \<Rightarrow>
                       (st_Restriction st,
                        getBasefromSimpleType E (trimNSPrefix E (st_Base st)) (ProtoTree gen))
                   | None \<Rightarrow>
                       (case findSimpleType E gen (trimNSPrefix E (at_Type attribute)) of
                          Some st2 \<Rightarrow>
                            (st_Restriction st2,
                             getBasefromSimpleType E (trimNSPrefix E (st_Base st2)) (ProtoTree gen))
                        | None \<Rightarrow> (r, base)))
                else (r, base));
             vtag = buildValidateTag E base (Some r) (at_Optional attribute) False;
             tag = ''xml:'' @ dq @ at_Name attribute @ '',attr'' @ optional @ dq;
             tag = (if vtag \<noteq> '''' then tag @ '' validate:'' @ dq @ vtag @ dq else tag)
         in (gen, content @ tab @ fst (genGoFieldName E (at_Name attribute) False gen) @ ''Attr'' @ tab
                    @ genGoFieldType E base @ tab @ bq @ tag @ bq @ nl)))"

definition GoAttributeGroup :: "'f env \<Rightarrow> 'f AttributeGroup \<Rightarrow> 'f CodeGenerator \<Rightarrow> 'f CodeGenerator" where
  "GoAttributeGroup E v gen =
    (if map_of (StructAST gen) (ag_Name v) = None then
       (let content = '' struct {'' @ nl;
            (fieldName, gen) = genGoFieldName E (ag_Name v) True gen;
            (gen, content) =
              (if fieldName \<noteq> ag_Name v then
                 (gen\<lparr>ImportEncodingXML := True\<rparr>,
                  content @ tab @ ''XMLName'' @ tab @ ''xml.Name'' @ tab @ bq @ ''xml:'' @ dq
                    @ ag_Name v @ dq @ bq @ nl)
               else (gen, content));
            (gen, content) = fold (GoAttributeGroup_attribute E) (ag_Attributes v) (gen, content);
            content = content @ ''}'' @ nl;
            gen = gen\<lparr>StructAST := (ag_Name v, content) # StructAST gen\<rparr>
        in gen\<lparr>Field := Field gen @ genFieldComment E fieldName (ag_Doc v) ''//''
                  @ ''type '' @ fieldName @ content\<rparr>)
     else gen)"

definition GoElement :: "'f env \<Rightarrow> 'f Element \<Rightarrow> 'f CodeGenerator \<Rightarrow> 'f CodeGenerator" where
  "GoElement E v gen =
    (if map_of (StructAST gen) (el_Name v) = None then
       (let plural = (if el_Plural v then ''[]'' else '''');
            content = tab @ plural
                        @ genGoFieldType E
                            (getBasefromSimpleType E (trimNSPrefix E (el_Type v)) (ProtoTree gen))
                        @ nl;
            gen = gen\<lparr>StructAST := (el_Name v, content) # StructAST gen\<rparr>;
            (fieldName, gen) = genGoFieldName E (el_Name v) False gen
        in gen\<lparr>Field := Field gen @ genFieldComment E fieldName (el_Doc v) ''//''
                  @ ''type '' @ fieldName @ content\<rparr>)
     else gen)"

definition GoAttribute :: "'f env \<Rightarrow> 'f Attribute \<Rightarrow> 'f CodeGenerator \<Rightarrow> 'f CodeGenerator" where
  "GoAttribute E v gen =
    (if map_of (StructAST gen) (at_Name v) = None then
       (let plural = (if at_Plural v then ''[]'' else '''');
            content = tab @ plural
                        @ genGoFieldType E
                            (getBasefromSimpleType E (trimNSPrefix E (at_Type v)) (ProtoTree gen))
                        @ nl;
            gen = gen\<lparr>StructAST := (at_Name v, content) # StructAST gen\<rparr>;
            (fieldName, gen) = genGoFieldName E (at_Name v) True gen
        in gen\<lparr>Field := Field gen @ genFieldComment E fieldName (at_Doc v) ''//''
                  @ ''type '' @ fieldName @ content\<rparr>)
     else gen)"

section \<open>The safety net and the driver\<close>

definition isIdentByte :: "char \<Rightarrow> bool" where
  "isIdentByte r =
     (r = CHR ''_'' \<or> (48 \<le> (of_char r :: nat) \<and> (of_char r :: nat) \<le> 57)
      \<or> (65 \<le> (of_char r :: nat) \<and> (of_char r :: nat) \<le> 90)
      \<or> (97 \<le> (of_char r :: nat) \<and> (of_char r :: nat) \<le> 122))"

text \<open>
  The map \<open>candidates\<close> of \<open>ensureReferencedTypesDeclared\<close>: its keys are the tokens of
  \<open>gen.Field\<close> that start with \<open>T\<close> and an upper-case letter.
\<close>

definition candidates :: "'f CodeGenerator \<Rightarrow> string list" where
  "candidates gen =
     remdups (filter (\<lambda>tok. length tok \<ge> 2 \<and> tok ! 0 = CHR ''T''
                             \<and> 65 \<le> (of_char (tok ! 1) :: nat) \<and> (of_char (tok ! 1) :: nat) \<le> 90)
               (FieldsFunc (Field gen) (\<lambda>r. \<not> isIdentByte r)))"

text \<open>The map \<open>declared\<close>: the keys of \<open>StructAST\<close> and their Go names.\<close>

definition declared :: "'f env \<Rightarrow> 'f CodeGenerator \<Rightarrow> string \<Rightarrow> bool" where
  "declared E gen name =
     (\<exists>k \<in> set (map fst (StructAST gen)). name = k \<or> name = fst (genGoFieldName E k False gen))"

text \<open>
  The body of the loop \<open>for name := range candidates\<close>; \<open>gen0\<close> is the generator as it was
  when \<open>declared\<close> was filled, before the loop.
\<close>

definition ensureReferencedTypesDeclared_name ::
    "'f env \<Rightarrow> 'f CodeGenerator \<Rightarrow> string \<Rightarrow> 'f CodeGenerator \<Rightarrow> 'f CodeGenerator" where
  "ensureReferencedTypesDeclared_name E gen0 name gen =
    (if declared E gen0 name \<or> declared E gen0 (ToLower E (take 1 name) @ drop 1 name) then gen
     else if name \<in> set goBuildinType then gen
     else
      (let content = '' string'' @ nl;
           gen = gen\<lparr>StructAST := (name, content) # StructAST gen\<rparr>;
           (fieldName, gen) = genGoFieldName E name True gen
       in gen\<lparr>Field := Field gen @ genFieldComment E fieldName '''' ''//''
                 @ ''type '' @ fieldName @ content\<rparr>))"

text \<open>
  Go leaves the order in which \<open>range\<close> visits the keys of a map unspecified, and the
  runtime varies it from one run to the next: \<open>rangeOrder E\<close> is the order of this run.
\<close>

definition ensureReferencedTypesDeclared :: "'f env \<Rightarrow> 'f CodeGenerator \<Rightarrow> 'f CodeGenerator" where
  "ensureReferencedTypesDeclared E gen =
     fold (ensureReferencedTypesDeclared_name E gen) (rangeOrder E (candidates gen)) gen"

definition FileWithExtension :: "'f CodeGenerator \<Rightarrow> string \<Rightarrow> string" where
  "FileWithExtension gen extension =
    (let extension = (if \<not> HasPrefix extension ''.'' then ''.'' @ extension else extension)
     in if HasSuffix (File gen) extension then File gen else File gen @ extension)"

text \<open>
  The three loops of \<open>GenGo\<close> over \<open>ProtoTree\<close>. In the second, \<open>callFuncByName\<close> calls the
  method \<open>Go\<close> followed by the name of the entry's type.
\<close>

definition GenGo_first :: "'f env \<Rightarrow> 'f entry \<Rightarrow> 'f CodeGenerator \<Rightarrow> 'f CodeGenerator" where
  "GenGo_first E ele gen =
    (case ele of
       SimpleTypeE st \<Rightarrow> if st_Name st \<noteq> '''' then GoSimpleType E st gen else gen
     | _ \<Rightarrow> gen)"

definition GenGo_second :: "'f env \<Rightarrow> 'f entry \<Rightarrow> 'f CodeGenerator \<Rightarrow> 'f CodeGenerator" where
  "GenGo_second E ele gen =
    (case ele of
       SimpleTypeE v \<Rightarrow> GoSimpleType E v gen
     | ComplexTypeE v \<Rightarrow> GoComplexType E v gen
     | GroupE v \<Rightarrow> GoGroup E v gen
     | AttributeGroupE v \<Rightarrow> GoAttributeGroup E v gen
     | ElementE v \<Rightarrow> GoElement E v gen
     | AttributeE v \<Rightarrow> GoAttribute E v gen)"

definition GenGo_sweep :: "'f env \<Rightarrow> 'f entry \<Rightarrow> 'f CodeGenerator \<Rightarrow> 'f CodeGenerator" where
  "GenGo_sweep E ele gen =
    (case ele of
       SimpleTypeE st \<Rightarrow>
         if st_Name st \<noteq> '''' \<and> map_of (StructAST gen) (st_Name st) = None
         then GoSimpleType E st gen else gen
     | _ \<Rightarrow> gen)"

text \<open>The generator as it stands when \<open>GenGo\<close> reaches \<open>os.Create\<close>.\<close>

definition GenGo_emit :: "'f env \<Rightarrow> 'f CodeGenerator \<Rightarrow> 'f CodeGenerator" where
  "GenGo_emit E gen =
    (let gen = gen\<lparr>fieldNameCount := (\<lambda>_. 0)\<rparr>;
         gen = fold (GenGo_first E) (ProtoTree gen) gen;
         gen = fold (GenGo_second E) (ProtoTree gen) gen;
         gen = fold (GenGo_sweep E) (ProtoTree gen) gen
     in if Contains (File gen) ''commonTypes.go'' then ensureReferencedTypesDeclared E gen else gen)"

text \<open>
  What a caller of \<open>GenGo\<close> observes: the error returned, and the output file (its path and
  its content) when \<open>os.Create\<close> made one. The results of the two writes are not looked at
  by the code; the file holds what was written.
\<close>

record outcome =
  out_err :: "error option"
  out_file :: "(string \<times> string) option"

text \<open>The import block, the package name, and the text that \<open>GenGo\<close> hands to \<open>format.Source\<close>.\<close>

definition importPackage :: "'f CodeGenerator \<Rightarrow> string" where
  "importPackage gen =
    (let packages = '''';
         packages = (if ImportTime gen then packages @ tab @ dq @ ''time'' @ dq @ nl else packages);
         packages = (if ImportEncodingXML gen then packages @ tab @ dq @ ''encoding/xml'' @ dq @ nl
                     else packages);
         packages = (if ImportFmt gen then packages @ tab @ dq @ ''fmt'' @ dq @ nl else packages);
         packages = (if ImportRegexp gen then packages @ tab @ dq @ ''regexp'' @ dq @ nl else packages)
     in if packages \<noteq> '''' then ''import ('' @ nl @ packages @ '')'' else '''')"

definition packageName :: "'f CodeGenerator \<Rightarrow> string" where
  "packageName gen = (if Package gen = '''' then ''schema'' else Package gen)"

definition sourceText :: "'f env \<Rightarrow> 'f CodeGenerator \<Rightarrow> string" where
  "sourceText E gen =
     copyright E @ nl @ nl @ ''package '' @ packageName gen @ nl @ importPackage gen @ Field gen"

definition GenGo :: "'f env \<Rightarrow> 'f CodeGenerator \<Rightarrow> outcome \<times> 'f CodeGenerator" where
  "GenGo E gen0 =
    (let gen = GenGo_emit E gen0;
         path = FileWithExtension gen ''.go''
     in case os_Create E path of
          Some e \<Rightarrow> (\<lparr>out_err = Some e, out_file = None\<rparr>, gen)
        | None \<Rightarrow>
           (case format_Source E (sourceText E gen) of
              Inl e \<Rightarrow>
                (\<lparr>out_err = Some e,
                  out_file = Some (path, ''package '' @ packageName gen @ nl @ importPackage gen
                                           @ Field gen)\<rparr>,
                 gen)
            | Inr source \<Rightarrow> (\<lparr>out_err = None, out_file = Some (path, source)\<rparr>, gen)))"

section \<open>An instance of the parameters\<close>

text \<open>
  Modelled from the spec: the helpers of the package that are not in genGo.go, and the
  library functions restricted to ASCII text. This instance is used only to run the
  generator on concrete inputs; the general theorems quantify over every \<open>env\<close>.
  \<^item> \<open>trimNSPrefix\<close> "strips any namespace prefix (\<open>ns:local\<close> becomes \<open>local\<close>)";
  \<^item> \<open>getBasefromSimpleType\<close> looks for a simple type of that name and gives its base,
    and "if not found, returns the local name unchanged";
  \<^item> the registry of built-in types holds \<open>string\<close>, \<open>int\<close> and \<open>boolean\<close> here;
  \<^item> \<open>MakeFirstUpperCase\<close> turns the first letter of a word into upper case;
  \<^item> \<open>genFieldComment\<close> and \<open>copyright\<close>, of which the specification says nothing, write a
    one-line comment each; \<open>toSortedPairs\<close> keeps the pairs in the order of the list;
  \<^item> \<open>float64\<close> stands as \<open>int\<close>, and \<open>%g\<close> writes it in decimal digits;
  \<^item> \<open>%q\<close> wraps ASCII text in double quotes, with a backslash before a double quote
    and before a backslash; \<open>TrimSpace\<close> and \<open>ToLower\<close> act on ASCII bytes;
  \<^item> \<open>os.Create\<close> succeeds, and the formatter accepts every text and leaves it as it is;
  \<^item> \<open>range\<close> visits the keys of a map in the order \<open>order\<close> makes of them.
\<close>

fun afterLastColon :: "string \<Rightarrow> string \<Rightarrow> string" where
  "afterLastColon acc [] = acc"
| "afterLastColon acc (c # cs) = (if c = CHR '':'' then afterLastColon [] cs else afterLastColon (acc @ [c]) cs)"

fun baseOf :: "string \<Rightarrow> 'f entry list \<Rightarrow> string" where
  "baseOf name [] = name"
| "baseOf name (SimpleTypeE st # rest) = (if st_Name st = name then st_Base st else baseOf name rest)"
| "baseOf name (_ # rest) = baseOf name rest"

definition upperByte :: "char \<Rightarrow> char" where
  "upperByte c = (if 97 \<le> (of_char c :: nat) \<and> (of_char c :: nat) \<le> 122
                  then char_of ((of_char c :: nat) - 32) else c)"

definition lowerByte :: "char \<Rightarrow> char" where
  "lowerByte c = (if 65 \<le> (of_char c :: nat) \<and> (of_char c :: nat) \<le> 90
                  then char_of ((of_char c :: nat) + 32) else c)"

definition quoteASCII :: "string \<Rightarrow> string" where
  "quoteASCII s =
     dq @ concat (map (\<lambda>c. if c = CHR 0x22 \<or> c = CHR 0x5C then [CHR 0x5C, c] else [c]) s) @ dq"

definition isSpaceByte :: "char \<Rightarrow> bool" where
  "isSpaceByte c = (c \<in> set ('' '' @ tab @ nl @ cr @ [CHR 0x0B, CHR 0x0C]))"

definition trimSpaceASCII :: "string \<Rightarrow> string" where
  "trimSpaceASCII s = rev (dropWhile isSpaceByte (rev (dropWhile isSpaceByte s)))"

definition exampleEnv :: "(string list \<Rightarrow> string list) \<Rightarrow> int env" where
  "exampleEnv order =
    \<lparr>trimNSPrefix = afterLastColon [],
     getBasefromSimpleType = baseOf,
     getBuildInTypeByLang =
       (\<lambda>name lang. if name \<in> set [''string'', ''int''] then (name, True)
                     else if name = ''boolean'' then (''bool'', True) else ('''', False)),
     MakeFirstUpperCase = (\<lambda>s. case s of [] \<Rightarrow> [] | c # cs \<Rightarrow> upperByte c # cs),
     genFieldComment = (\<lambda>name doc prefix. nl @ prefix @ '' '' @ name @ '' ...'' @ nl),
     toSortedPairs = (\<lambda>ps. ps),
     copyright = ''// Code generated by xgen. DO NOT EDIT.'',
     fmt_g = fmt_d,
     fmt_q = quoteASCII,
     TrimSpace = trimSpaceASCII,
     ToLower = map lowerByte,
     format_Source = Inr,
     os_Create = (\<lambda>path. None),
     rangeOrder = order\<rparr>"

definition noRestriction :: "int Restriction" where
  "noRestriction =
    \<lparr>Enum = [], PatternStr = '''', HasLength = False, Length = 0, HasMinLength = False,
     MinLength = 0, HasMaxLength = False, MaxLength = 0, HasMin = False, Min_v = 0,
     MinExclusive = False, HasMax = False, Max_v = 0, MaxExclusive = False\<rparr>"

definition newGenerator :: "string \<Rightarrow> int entry list \<Rightarrow> int CodeGenerator" where
  "newGenerator name tree =
    \<lparr>File = name, Field = '''', Package = ''schema'', ImportTime = False,
     ImportEncodingXML = False, ImportFmt = False, ImportRegexp = False, ProtoTree = tree,
     StructAST = [], fieldNameCount = (\<lambda>_. 0)\<rparr>"

section \<open>The parser's state and its handlers\<close>

text \<open>
  The fields of \<open>Options\<close> that the handlers of xmlSimpleType.go, xmlRestriction.go and of
  the facet files use. A stack is a list with its top first; \<open>Peek\<close> and \<open>Pop\<close> of an empty
  stack give \<open>nil\<close>. A stack holds pointers, each to a struct made when it was pushed and
  reachable from nowhere else, so the structs themselves stand in the lists. An XML
  attribute is the pair of its local name and its value.
\<close>

record 'f Options =
  opt_SimpleType :: "'f SimpleType list"
  opt_Attribute :: "'f Attribute list"
  opt_Element :: "'f Element list"
  opt_ComplexType :: "'f ComplexType list"
  opt_ProtoTree :: "'f entry list"
  opt_CurrentEle :: string
  opt_InElement :: string
  opt_InUnion :: bool

text \<open>
  What the handlers take from outside their files: \<open>strconv.ParseFloat\<close> and
  \<open>strconv.Atoi\<close> (\<open>None\<close> when they return an error), the method \<open>GetValueType\<close> with the
  pair it returns, and the zero value of \<open>float64\<close>.
\<close>

record 'f penv =
  ParseFloat :: "string \<Rightarrow> 'f option"
  Atoi :: "string \<Rightarrow> int option"
  GetValueType :: "'f Options \<Rightarrow> string \<Rightarrow> 'f entry list \<Rightarrow> string \<times> error option"
  zeroFloat :: 'f

definition emptyRestriction :: "'f \<Rightarrow> 'f Restriction" where
  "emptyRestriction z =
    \<lparr>Enum = [], PatternStr = '''', HasLength = False, Length = 0, HasMinLength = False,
     MinLength = 0, HasMaxLength = False, MaxLength = 0, HasMin = False, Min_v = z,
     MinExclusive = False, HasMax = False, Max_v = z, MaxExclusive = False\<rparr>"

definition emptySimpleType :: "'f \<Rightarrow> 'f SimpleType" where
  "emptySimpleType z =
    \<lparr>st_Name = '''', st_Doc = '''', st_Base = '''', st_List = False, st_Union = False,
     st_MemberTypes = [], st_Restriction = emptyRestriction z\<rparr>"

subsection \<open>Facet handlers\<close>

text \<open>Each is a loop over the attributes of the start element; these are the loop bodies.\<close>

definition OnMinInclusive_attr :: "'f penv \<Rightarrow> string \<times> string \<Rightarrow> 'f Options \<Rightarrow> 'f Options" where
  "OnMinInclusive_attr P attr opt =
    (if fst attr = ''value'' then
       (case opt_SimpleType opt of
          [] \<Rightarrow> opt
        | st # rest \<Rightarrow>
           (case ParseFloat P (snd attr) of
              None \<Rightarrow> opt
            | Some v \<Rightarrow>
                opt\<lparr>opt_SimpleType :=
                      st\<lparr>st_Restriction :=
                            (st_Restriction st)\<lparr>Min_v := v, HasMin := True, MinExclusive := False\<rparr>\<rparr>
                      # rest\<rparr>))
     else opt)"

definition OnMinInclusive ::
    "'f penv \<Rightarrow> (string \<times> string) list \<Rightarrow> 'f entry list \<Rightarrow> 'f Options \<Rightarrow> error option \<times> 'f Options" where
  "OnMinInclusive P attrs protoTree opt = (None, fold (OnMinInclusive_attr P) attrs opt)"

definition OnMaxInclusive_attr :: "'f penv \<Rightarrow> string \<times> string \<Rightarrow> 'f Options \<Rightarrow> 'f Options" where
  "OnMaxInclusive_attr P attr opt =
    (if fst attr = ''value'' then
       (case opt_SimpleType opt of
          [] \<Rightarrow> opt
        | st # rest \<Rightarrow>
           (case ParseFloat P (snd attr) of
              None \<Rightarrow> opt
            | Some v \<Rightarrow>
                opt\<lparr>opt_SimpleType :=
                      st\<lparr>st_Restriction :=
                            (st_Restriction st)\<lparr>Max_v := v, HasMax := True, MaxExclusive := False\<rparr>\<rparr>
                      # rest\<rparr>))
     else opt)"

definition OnMaxInclusive ::
    "'f penv \<Rightarrow> (string \<times> string) list \<Rightarrow> 'f entry list \<Rightarrow> 'f Options \<Rightarrow> error option \<times> 'f Options" where
  "OnMaxInclusive P attrs protoTree opt = (None, fold (OnMaxInclusive_attr P) attrs opt)"

definition OnMaxLength_attr :: "'f penv \<Rightarrow> string \<times> string \<Rightarrow> 'f Options \<Rightarrow> 'f Options" where
  "OnMaxLength_attr P attr opt =
    (if fst attr = ''value'' then
       (case opt_SimpleType opt of
          [] \<Rightarrow> opt
        | st # rest \<Rightarrow>
           (case Atoi P (snd attr) of
              None \<Rightarrow> opt
            | Some v \<Rightarrow>
                opt\<lparr>opt_SimpleType :=
                      st\<lparr>st_Restriction := (st_Restriction st)\<lparr>MaxLength := v, HasMaxLength := True\<rparr>\<rparr>
                      # rest\<rparr>))
     else opt)"

definition OnMaxLength ::
    "'f penv \<Rightarrow> (string \<times> string) list \<Rightarrow> 'f entry list \<Rightarrow> 'f Options \<Rightarrow> error option \<times> 'f Options" where
  "OnMaxLength P attrs protoTree opt = (None, fold (OnMaxLength_attr P) attrs opt)"

definition OnMinLength_attr :: "'f penv \<Rightarrow> string \<times> string \<Rightarrow> 'f Options \<Rightarrow> 'f Options" where
  "OnMinLength_attr P attr opt =
    (if fst attr = ''value'' then
       (case opt_SimpleType opt of
          [] \<Rightarrow> opt
        | st # rest \<Rightarrow>
           (case Atoi P (snd attr) of
              None \<Rightarrow> opt
            | Some v \<Rightarrow>
                opt\<lparr>opt_SimpleType :=
                      st\<lparr>st_Restriction := (st_Restriction st)\<lparr>MinLength := v, HasMinLength := True\<rparr>\<rparr>
                      # rest\<rparr>))
     else opt)"

definition OnMinLength ::
    "'f penv \<Rightarrow> (string \<times> string) list \<Rightarrow> 'f entry list \<Rightarrow> 'f Options \<Rightarrow> error option \<times> 'f Options" where
  "OnMinLength P attrs protoTree opt = (None, fold (OnMinLength_attr P) attrs opt)"



subsection \<open>simpleType and restriction\<close>








section \<open>What the specification says about a field, in its own words\<close>




text \<open>A complex type has a field with an inline restriction that sets a rule.\<close>

definition hasInlineRestriction :: "'f ComplexType \<Rightarrow> bool" where
  "hasInlineRestriction v =
    ((\<exists>a \<in> set (ct_Attributes v). hasRestrictions (Some (at_Restriction a)))
     \<or> (\<exists>e \<in> set (ct_Elements v). hasRestrictions (Some (el_Restriction e))))"

text \<open>The complex type without the fields that have no inline rule.\<close>

definition inlineRestrictedOnly :: "'f ComplexType \<Rightarrow> 'f ComplexType" where
  "inlineRestrictedOnly v =
     v\<lparr>ct_Attributes := filter (\<lambda>a. hasRestrictions (Some (at_Restriction a))) (ct_Attributes v),
       ct_Elements := filter (\<lambda>e. hasRestrictions (Some (el_Restriction e))) (ct_Elements v)\<rparr>"

section \<open>The stream of events\<close>






text \<open>What the handlers of facets and of start elements leave as it is.\<close>

definition frame :: "'f Options \<Rightarrow> nat \<times> nat \<times> 'f entry list" where
  "frame opt = (length (opt_Attribute opt), length (opt_Element opt), opt_ProtoTree opt)"

section \<open>Concrete inputs\<close>

text \<open>The pattern of a date, \<open>[0-9]{2}\.[0-9]{2}\.[0-9]{4}\<close>, and the pattern of a time of day.\<close>

definition datePattern :: string where
  "datePattern = ''[0-9]{2}'' @ bsl @ ''.[0-9]{2}'' @ bsl @ ''.[0-9]{4}''"

definition dateRestriction :: "int Restriction" where
  "dateRestriction = noRestriction\<lparr>PatternStr := datePattern\<rparr>"

definition timeRestriction :: "int Restriction" where
  "timeRestriction = noRestriction\<lparr>PatternStr := ''[0-9]{2}:[0-9]{2}''\<rparr>"

text \<open>A named simple type with that pattern, and a generator for a schema that declares it.\<close>

definition tTime :: "int SimpleType" where
  "tTime = \<lparr>st_Name = ''tTime'', st_Doc = '''', st_Base = ''string'', st_List = False,
     st_Union = False, st_MemberTypes = [], st_Restriction = timeRestriction\<rparr>"

definition timeGenerator :: "int CodeGenerator" where
  "timeGenerator = newGenerator ''out.go'' [SimpleTypeE tTime]"

text \<open>The instance with a formatter that rejects every text.\<close>

definition rejectingEnv :: "int env" where
  "rejectingEnv = (exampleEnv id)\<lparr>format_Source := (\<lambda>text. Inl (FormatError ''expected declaration''))\<rparr>"

text \<open>
  Two top-level elements whose types are declared in another schema file, in a generator
  for the shared output file.
\<close>

definition elemFoo :: "int Element" where
  "elemFoo = \<lparr>el_Name = ''a'', el_Doc = '''', el_Type = ''tFoo'', el_TypeRef = ''tFoo'',
     el_Optional = False, el_Plural = False, el_Restriction = noRestriction\<rparr>"

definition elemBar :: "int Element" where
  "elemBar = \<lparr>el_Name = ''b'', el_Doc = '''', el_Type = ''tBar'', el_TypeRef = ''tBar'',
     el_Optional = False, el_Plural = False, el_Restriction = noRestriction\<rparr>"

definition commonGenerator :: "int CodeGenerator" where
  "commonGenerator = newGenerator ''commonTypes.go'' [ElementE elemFoo, ElementE elemBar]"

text \<open>
  Modelled from the spec: an instance of what the handlers take from outside. Numbers are
  read as decimal integers with an optional sign; \<open>GetValueType\<close> "strips any namespace
  prefix", maps a built-in name through the registry, else gives the base of the simple
  type of that name in the tree, else the local name, and never fails.
\<close>

definition digitValue :: "char \<Rightarrow> nat option" where
  "digitValue c = (if 48 \<le> (of_char c :: nat) \<and> (of_char c :: nat) \<le> 57
                   then Some ((of_char c :: nat) - 48) else None)"

fun parseDigits :: "nat \<Rightarrow> string \<Rightarrow> nat option" where
  "parseDigits acc [] = Some acc"
| "parseDigits acc (c # cs) =
     (case digitValue c of None \<Rightarrow> None | Some d \<Rightarrow> parseDigits (10 * acc + d) cs)"

definition parseDecimal :: "string \<Rightarrow> int option" where
  "parseDecimal s =
    (case s of
       [] \<Rightarrow> None
     | c # cs \<Rightarrow>
         if c = CHR ''-'' then (if cs = [] then None else map_option (\<lambda>n. - int n) (parseDigits 0 cs))
         else if c = CHR ''+'' then (if cs = [] then None else map_option int (parseDigits 0 cs))
         else map_option int (parseDigits 0 s))"

definition examplePenv :: "int penv" where
  "examplePenv =
    \<lparr>ParseFloat = parseDecimal,
     Atoi = parseDecimal,
     GetValueType =
       (\<lambda>opt name tree.
          (let name = afterLastColon [] name
           in if name \<in> set [''string'', ''int''] then (name, None)
              else if name = ''boolean'' then (''bool'', None)
              else (baseOf name tree, None))),
     zeroFloat = 0\<rparr>"

definition emptyOptions :: "int Options" where
  "emptyOptions =
    \<lparr>opt_SimpleType = [], opt_Attribute = [], opt_Element = [], opt_ComplexType = [],
     opt_ProtoTree = [], opt_CurrentEle = '''', opt_InElement = '''', opt_InUnion = False\<rparr>"

text \<open>The state after \<open><simpleType name="tAge"><restriction base="xs:int">\<close>.\<close>

definition ageOptions :: "int Options" where
  "ageOptions =
     emptyOptions\<lparr>opt_SimpleType := [(emptySimpleType 0)\<lparr>st_Name := ''tAge'', st_Base := ''int''\<rparr>]\<rparr>"

text \<open>
  Fields of a complex type: an element and an attribute whose \<open>TypeRef\<close> names the simple
  type \<open>tTime\<close> and that have no inline restriction, an optional element, a plural
  element, and an attribute whose \<open>Plural\<close> flag is set.
\<close>

definition startElement :: "int Element" where
  "startElement = \<lparr>el_Name = ''start'', el_Doc = '''', el_Type = ''string'', el_TypeRef = ''tTime'',
     el_Optional = False, el_Plural = False, el_Restriction = noRestriction\<rparr>"

definition startAttribute :: "int Attribute" where
  "startAttribute = \<lparr>at_Name = ''start'', at_Doc = '''', at_Type = ''string'', at_TypeRef = ''tTime'',
     at_Optional = False, at_Plural = False, at_Restriction = noRestriction\<rparr>"



text \<open>
  An element with an inline restriction (exactly two characters), a complex type whose
  only field takes its restriction from \<open>tTime\<close>, and one that has both fields.
\<close>

definition codeElement :: "int Element" where
  "codeElement = \<lparr>el_Name = ''code'', el_Doc = '''', el_Type = ''string'', el_TypeRef = '''',
     el_Optional = False, el_Plural = False,
     el_Restriction = noRestriction\<lparr>HasLength := True, Length := 2\<rparr>\<rparr>"

definition driverType :: "int ComplexType" where
  "driverType = \<lparr>ct_Name = ''Driver'', ct_Doc = '''', ct_Base = '''', ct_Attributes = [],
     ct_Elements = [startElement], ct_Groups = [], ct_AttributeGroup = []\<rparr>"

definition shiftType :: "int ComplexType" where
  "shiftType = \<lparr>ct_Name = ''Shift'', ct_Doc = '''', ct_Base = '''', ct_Attributes = [startAttribute],
     ct_Elements = [startElement, codeElement], ct_Groups = [], ct_AttributeGroup = []\<rparr>"

text \<open>
  Restrictions with enumerations: two state codes; two values of which one holds a blank;
  the numbers 1 and 2 of a simple type whose base is \<open>xs:int\<close>.
\<close>

definition stateRestriction :: "int Restriction" where
  "stateRestriction = noRestriction\<lparr>Enum := [''AA'', ''BB''], HasLength := True, Length := 2\<rparr>"

definition cityRestriction :: "int Restriction" where
  "cityRestriction = noRestriction\<lparr>Enum := [''Oslo'', ''New York'']\<rparr>"

definition levelRestriction :: "int Restriction" where
  "levelRestriction = noRestriction\<lparr>Enum := [''1'', ''2'']\<rparr>"











section \<open>Pattern rules: escaping and anchoring\<close>

text \<open>
  C1. A pattern holding a backslash is to appear in the declarative tag with every
  backslash doubled. The code copies the pattern into the rule as it is: for the date
  pattern \<open>[0-9]{2}\.[0-9]{2}\.[0-9]{4}\<close> the tag is \<open>matches=^[0-9]{2}\.[0-9]{2}\.[0-9]{4}$\<close>,
  with single backslashes, and nowhere in it do two backslashes follow each other.
\<close>

theorem tag_keeps_single_backslash:
  "buildValidateTag E ''string'' (Some dateRestriction) False False
     = ''matches=^[0-9]{2}'' @ bsl @ ''.[0-9]{2}'' @ bsl @ ''.[0-9]{4}$''
   \<and> \<not> Contains (buildValidateTag E ''string'' (Some dateRestriction) False False) (bsl @ bsl)"
  by code_simp

text \<open>The same with the parameters of the instance.\<close>

theorem tag_keeps_single_backslash_witness:
  "buildValidateTag (exampleEnv id) ''string'' (Some dateRestriction) False False
     = ''matches=^[0-9]{2}'' @ bsl @ ''.[0-9]{2}'' @ bsl @ ''.[0-9]{4}$''"
  using tag_keeps_single_backslash [of "exampleEnv id"] by (rule conjunct1)

text \<open>
  C2. Every emitted pattern rule is to start with \<open>^\<close> and end with \<open>$\<close>. The tag does,
  but both method forms hand the pattern to \<open>regexp.MustCompile\<close> as the schema wrote it:
  for the pattern \<open>[0-9]{2}:[0-9]{2}\<close> neither the \<open>Validate\<close> method of a named simple
  type nor the checks of a complex type's field hold an anchor anywhere.
\<close>

theorem method_pattern_not_anchored:
  "Field (generateSimpleTypeValidator (exampleEnv id) ''TTime'' ''string'' (Some timeRestriction)
            (newGenerator ''out.go'' []))
     = nl @ ''func (v TTime) Validate() error {'' @ nl
       @ tab @ ''if ok := regexp.MustCompile('' @ dq @ ''[0-9]{2}:[0-9]{2}'' @ dq
       @ '').MatchString(string(v)); !ok { return fmt.Errorf('' @ dq
       @ ''%s does not match pattern: %q'' @ dq @ '', '' @ dq @ ''TTime'' @ dq @ '', '' @ dq
       @ ''[0-9]{2}:[0-9]{2}'' @ dq @ '') }'' @ nl
       @ tab @ ''return nil'' @ nl @ ''}'' @ nl
   \<and> fst (generateRestrictionChecks (exampleEnv id) ''m.Start'' ''string'' ''Start'' timeRestriction
            (newGenerator ''out.go'' []))
     = tab @ ''if ok := regexp.MustCompile('' @ dq @ ''[0-9]{2}:[0-9]{2}'' @ dq
       @ '').MatchString(string(m.Start)); !ok { return fmt.Errorf('' @ dq
       @ ''Start does not match pattern: %q'' @ dq @ '', '' @ dq @ ''[0-9]{2}:[0-9]{2}'' @ dq
       @ '') }'' @ nl
   \<and> buildValidateTag (exampleEnv id) ''string'' (Some timeRestriction) False False
     = ''matches=^[0-9]{2}:[0-9]{2}$''"
  by code_simp

text \<open>The method of the named simple type alone.\<close>

theorem method_pattern_not_anchored_witness:
  "Field (generateSimpleTypeValidator (exampleEnv id) ''TTime'' ''string'' (Some timeRestriction)
            (newGenerator ''out.go'' []))
     = nl @ ''func (v TTime) Validate() error {'' @ nl
       @ tab @ ''if ok := regexp.MustCompile('' @ dq @ ''[0-9]{2}:[0-9]{2}'' @ dq
       @ '').MatchString(string(v)); !ok { return fmt.Errorf('' @ dq
       @ ''%s does not match pattern: %q'' @ dq @ '', '' @ dq @ ''TTime'' @ dq @ '', '' @ dq
       @ ''[0-9]{2}:[0-9]{2}'' @ dq @ '') }'' @ nl
       @ tab @ ''return nil'' @ nl @ ''}'' @ nl"
  using method_pattern_not_anchored by (rule conjunct1)

section \<open>The formatter rejects the text\<close>

text \<open>
  C8. When \<open>os.Create\<close> succeeds and \<open>format.Source\<close> rejects the generated text with an
  error, \<open>GenGo\<close> returns that error, and the output file holds the generated text as it
  was before formatting (package clause, import block and declarations; the copyright
  header that was offered to the formatter is not written). The file is not empty.
\<close>

theorem GenGo_formatter_rejection:
  assumes "os_Create E (FileWithExtension (GenGo_emit E gen) ''.go'') = None"
    and "format_Source E (sourceText E (GenGo_emit E gen)) = Inl e"
  shows "out_err (fst (GenGo E gen)) = Some e
     \<and> out_file (fst (GenGo E gen))
         = Some (FileWithExtension (GenGo_emit E gen) ''.go'',
                 ''package '' @ packageName (GenGo_emit E gen) @ nl @ importPackage (GenGo_emit E gen)
                   @ Field (GenGo_emit E gen))
     \<and> snd (the (out_file (fst (GenGo E gen)))) \<noteq> ''''"
  using assms by (simp add: GenGo_def Let_def)

theorem GenGo_formatter_rejection_witness:
  "os_Create rejectingEnv (FileWithExtension (GenGo_emit rejectingEnv timeGenerator) ''.go'') = None
   \<and> format_Source rejectingEnv (sourceText rejectingEnv (GenGo_emit rejectingEnv timeGenerator))
       = Inl (FormatError ''expected declaration'')
   \<and> out_err (fst (GenGo rejectingEnv timeGenerator)) = Some (FormatError ''expected declaration'')
   \<and> out_file (fst (GenGo rejectingEnv timeGenerator))
       = Some (FileWithExtension (GenGo_emit rejectingEnv timeGenerator) ''.go'',
               ''package '' @ packageName (GenGo_emit rejectingEnv timeGenerator) @ nl
                 @ importPackage (GenGo_emit rejectingEnv timeGenerator)
                 @ Field (GenGo_emit rejectingEnv timeGenerator))
   \<and> snd (the (out_file (fst (GenGo rejectingEnv timeGenerator)))) \<noteq> ''''"
proof -
  have h1: "os_Create rejectingEnv (FileWithExtension (GenGo_emit rejectingEnv timeGenerator) ''.go'') = None"
    by (simp add: rejectingEnv_def exampleEnv_def)
  have h2: "format_Source rejectingEnv (sourceText rejectingEnv (GenGo_emit rejectingEnv timeGenerator))
              = Inl (FormatError ''expected declaration'')"
    by (simp add: rejectingEnv_def exampleEnv_def)
  show ?thesis
    using h1 h2 GenGo_formatter_rejection [OF h1 h2] by blast
qed

section \<open>What the emitters leave alone\<close>











section \<open>The type of a field\<close>




section \<open>The restriction of a field\<close>





section \<open>The validator of a complex type comes from inline restrictions only\<close>

lemma fold_filter_skip:
  "(\<And>x s. \<not> P x \<Longrightarrow> f x s = s) \<Longrightarrow> fold f (filter P xs) s = fold f xs s"
  by (induction xs arbitrary: s) auto

lemma Field_generateRestrictionChecks:
  "Field (snd (generateRestrictionChecks E varExpr base subject r gen)) = Field gen"
  by (simp add: generateRestrictionChecks_def Let_def split_beta)

lemma Field_validator_attribute:
  "Field (snd (generateComplexTypeValidator_attribute E a bg)) = Field (snd bg)"
  by (cases bg)
     (simp add: generateComplexTypeValidator_attribute_def Let_def split_beta
        Field_generateRestrictionChecks)

lemma Field_validator_element:
  "Field (snd (generateComplexTypeValidator_element E e bg)) = Field (snd bg)"
  by (cases bg)
     (simp add: generateComplexTypeValidator_element_def Let_def split_beta
        Field_generateRestrictionChecks)

lemma Field_validator_attributes:
  "Field (snd (fold (generateComplexTypeValidator_attribute E) as bg)) = Field (snd bg)"
  by (induction as arbitrary: bg) (simp_all add: Field_validator_attribute)

lemma Field_validator_elements:
  "Field (snd (fold (generateComplexTypeValidator_element E) es bg)) = Field (snd bg)"
  by (induction es arbitrary: bg) (simp_all add: Field_validator_element)

lemma validator_attribute_skip:
  "\<not> hasRestrictions (Some (at_Restriction a)) \<Longrightarrow> generateComplexTypeValidator_attribute E a bg = bg"
  by (cases bg) (simp add: generateComplexTypeValidator_attribute_def)

lemma validator_element_skip:
  "\<not> hasRestrictions (Some (el_Restriction e)) \<Longrightarrow> generateComplexTypeValidator_element E e bg = bg"
  by (cases bg) (simp add: generateComplexTypeValidator_element_def)

lemma validator_none:
  "\<not> hasInlineRestriction v \<Longrightarrow> generateComplexTypeValidator E typeName v gen = gen"
  by (simp add: generateComplexTypeValidator_def hasInlineRestriction_def)

lemma validator_some:
  assumes "hasInlineRestriction v"
  shows "Field (generateComplexTypeValidator E typeName v gen) \<noteq> Field gen"
proof -
  have any: "(\<exists>a \<in> set (ct_Attributes v). hasRestrictions (Some (at_Restriction a)))
     \<or> (\<exists>e \<in> set (ct_Elements v). hasRestrictions (Some (el_Restriction e)))"
    using assms by (simp add: hasInlineRestriction_def)
  show ?thesis
    using any
    by (auto simp add: generateComplexTypeValidator_def Let_def split_beta
        Field_validator_attributes Field_validator_elements)
qed

lemma validator_inline_only:
  "generateComplexTypeValidator E typeName (inlineRestrictedOnly v) gen
     = generateComplexTypeValidator E typeName v gen"
  by (simp add: generateComplexTypeValidator_def inlineRestrictedOnly_def
      fold_filter_skip validator_attribute_skip validator_element_skip
      cong: if_cong)

text \<open>
  C10. \<open>generateComplexTypeValidator\<close> adds text to the output exactly when an attribute or
  an element of the complex type has an inline restriction with a rule set; without one it
  leaves the generator as it is. What it emits is what it would emit for the complex type
  with every field without an inline rule taken away: a field that gets its restriction
  only through the simple type that its \<open>TypeRef\<close> or \<open>Type\<close> names adds no check.
\<close>

theorem complex_validator_only_from_inline:
  "(Field (generateComplexTypeValidator E typeName v gen) \<noteq> Field gen) = hasInlineRestriction v
   \<and> (\<not> hasInlineRestriction v \<longrightarrow> generateComplexTypeValidator E typeName v gen = gen)
   \<and> generateComplexTypeValidator E typeName v gen
       = generateComplexTypeValidator E typeName (inlineRestrictedOnly v) gen"
proof (cases "hasInlineRestriction v")
  case True
  then show ?thesis
    using validator_some [of v E typeName gen] validator_inline_only [of E typeName v gen]
    by simp
next
  case False
  then show ?thesis
    using validator_none [of v E typeName gen] validator_inline_only [of E typeName v gen]
    by simp
qed


text \<open>
  \<open>Driver\<close> has one field, of type \<open>tTime\<close>: its tag holds the pattern, and no \<open>Validate\<close>
  method is emitted. \<open>Shift\<close> has such fields and one with an inline length: its method
  checks the length only.
\<close>

theorem complex_validator_only_from_inline_witness:
  "\<not> hasInlineRestriction driverType
   \<and> generateComplexTypeValidator (exampleEnv id) ''Driver'' driverType timeGenerator = timeGenerator
   \<and> snd (snd (GoComplexType_elementField (exampleEnv id) startElement timeGenerator))
       = ''xml:'' @ dq @ ''start'' @ dq @ '' validate:'' @ dq @ ''matches=^[0-9]{2}:[0-9]{2}$'' @ dq
   \<and> hasInlineRestriction shiftType
   \<and> Field (generateComplexTypeValidator (exampleEnv id) ''Shift'' shiftType timeGenerator)
       \<noteq> Field timeGenerator
   \<and> Field (generateComplexTypeValidator (exampleEnv id) ''Shift'' shiftType timeGenerator)
       = nl @ ''func (m *Shift) Validate() error {'' @ nl
         @ tab @ ''if m == nil { return nil }'' @ nl
         @ tab @ ''if len(string(m.Code)) != 2 { return fmt.Errorf('' @ dq
         @ ''Code length must be exactly 2'' @ dq @ '') }'' @ nl
         @ tab @ ''return nil'' @ nl @ ''}'' @ nl"
proof -
  have n: "\<not> hasInlineRestriction driverType" by code_simp
  have y: "hasInlineRestriction shiftType" by code_simp
  have tag: "snd (snd (GoComplexType_elementField (exampleEnv id) startElement timeGenerator))
       = ''xml:'' @ dq @ ''start'' @ dq @ '' validate:'' @ dq @ ''matches=^[0-9]{2}:[0-9]{2}$'' @ dq"
    by code_simp
  have body: "Field (generateComplexTypeValidator (exampleEnv id) ''Shift'' (inlineRestrictedOnly shiftType)
                timeGenerator)
       = nl @ ''func (m *Shift) Validate() error {'' @ nl
         @ tab @ ''if m == nil { return nil }'' @ nl
         @ tab @ ''if len(string(m.Code)) != 2 { return fmt.Errorf('' @ dq
         @ ''Code length must be exactly 2'' @ dq @ '') }'' @ nl
         @ tab @ ''return nil'' @ nl @ ''}'' @ nl"
    by code_simp
  note d = complex_validator_only_from_inline [of "exampleEnv id" "''Driver''" driverType timeGenerator]
  note s = complex_validator_only_from_inline [of "exampleEnv id" "''Shift''" shiftType timeGenerator]
  from d n have r1: "generateComplexTypeValidator (exampleEnv id) ''Driver'' driverType timeGenerator
      = timeGenerator"
    by blast
  from s y have r2: "Field (generateComplexTypeValidator (exampleEnv id) ''Shift'' shiftType timeGenerator)
       \<noteq> Field timeGenerator"
    by blast
  from s have "generateComplexTypeValidator (exampleEnv id) ''Shift'' shiftType timeGenerator
      = generateComplexTypeValidator (exampleEnv id) ''Shift'' (inlineRestrictedOnly shiftType) timeGenerator"
    by blast
  with body have r3: "Field (generateComplexTypeValidator (exampleEnv id) ''Shift'' shiftType timeGenerator)
       = nl @ ''func (m *Shift) Validate() error {'' @ nl
         @ tab @ ''if m == nil { return nil }'' @ nl
         @ tab @ ''if len(string(m.Code)) != 2 { return fmt.Errorf('' @ dq
         @ ''Code length must be exactly 2'' @ dq @ '') }'' @ nl
         @ tab @ ''return nil'' @ nl @ ''}'' @ nl"
    by (simp only:)
  from n r1 tag y r2 r3 show ?thesis by blast
qed

section \<open>Enumerations in the tag and in the method\<close>

lemma enumScan_blank:
  "\<exists>ev \<in> set evs. ContainsAny ev enumWhitespace \<Longrightarrow> \<not> fst (enumScan evs acc)"
  by (induction evs arbitrary: acc) auto

lemma enumScan_clean:
  "\<forall>ev \<in> set evs. \<not> ContainsAny ev enumWhitespace \<Longrightarrow> enumScan evs acc = (True, acc @ evs)"
  by (induction evs arbitrary: acc) auto

lemma Join_snoc: "\<exists>pre. Join (xs @ [x]) sep = pre @ x"
proof (induction xs)
  case Nil
  then show ?case by simp
next
  case (Cons y ys)
  then obtain pre where p: "Join (ys @ [x]) sep = pre @ x" by blast
  show ?case
  proof (cases ys)
    case Nil
    then show ?thesis by simp
  next
    case (Cons z zs)
    with p have "Join ((y # ys) @ [x]) sep = (y @ sep @ pre) @ x" by simp
    then show ?thesis by blast
  qed
qed

lemma no_oneof_rule:
  assumes "\<exists>ev \<in> set (Enum r). ContainsAny ev enumWhitespace"
  shows "\<forall>rule \<in> set (buildValidateRules E base r optional). \<not> HasPrefix rule ''oneof=''"
proof -
  have "\<not> fst (enumScan (Enum r) [])"
    using assms by (rule enumScan_blank)
  then show ?thesis
    by (auto simp add: buildValidateRules_def Let_def HasPrefix_def split_beta)
qed


lemma string_rules:
  "buildValidateRules E ''string'' r optional
     = (if optional then [''omitempty''] else [])
       @ (if HasLength r then [''len='' @ fmt_d (Length r)]
          else (if HasMinLength r then [''min='' @ fmt_d (MinLength r)] else [])
               @ (if HasMaxLength r then [''max='' @ fmt_d (MaxLength r)] else []))
       @ (if PatternStr r \<noteq> '''' then [''matches=^'' @ PatternStr r @ ''$''] else [])
       @ (if Enum r \<noteq> [] \<and> fst (enumScan (Enum r) [])
          then [''oneof='' @ Join (snd (enumScan (Enum r) [])) '' ''] else [])"
  by (simp add: buildValidateRules_def Let_def isNumericGoType_def split_beta)

lemma tag_from_rules:
  "hasRestrictions (Some r) \<Longrightarrow>
   buildValidateTag E base (Some r) optional isSlice
     = (if buildValidateRules E base r optional = [] then ''''
        else Join ((if isSlice then [''dive''] else []) @ buildValidateRules E base r optional) '','')"
  by (simp add: buildValidateTag_def hasRestrictions_def Let_def)

lemma string_validator_text:
  assumes "hasRestrictions (Some r)"
  shows "Field (generateSimpleTypeValidator E typeName ''string'' (Some r) gen)
     = Field gen
       @ (nl @ ''func (v '' @ typeName @ '') Validate() error {'' @ nl
          @ (if HasLength r then
               checkLine (''len(string(v)) != '' @ fmt_d (Length r))
                 (typeName @ '' length must be exactly '' @ fmt_d (Length r))
             else
               (if HasMinLength r then
                  checkLine (''len(string(v)) < '' @ fmt_d (MinLength r))
                    (typeName @ '' length must be >= '' @ fmt_d (MinLength r))
                else '''')
               @ (if HasMaxLength r then
                    checkLine (''len(string(v)) > '' @ fmt_d (MaxLength r))
                      (typeName @ '' length must be <= '' @ fmt_d (MaxLength r))
                  else ''''))
          @ (if PatternStr r \<noteq> '''' then
               tab @ ''if ok := regexp.MustCompile('' @ fmt_q E (PatternStr r)
                 @ '').MatchString(string(v)); !ok { return fmt.Errorf('' @ dq
                 @ ''%s does not match pattern: %q'' @ dq @ '', '' @ fmt_q E typeName
                 @ '', '' @ fmt_q E (PatternStr r) @ '') }'' @ nl
             else ''''))
       @ (if Enum r \<noteq> [] then membershipCheck E ''v'' typeName (Enum r) else '''')
       @ tab @ ''return nil'' @ nl @ ''}'' @ nl"
  using assms
  by (simp add: generateSimpleTypeValidator_def hasRestrictions_def Let_def isNumericGoType_def
        split_beta)


text \<open>
  C6 (as amended). When a value of the enum holds a blank, a tab, a newline or a carriage
  return, no rule of the tag starts with \<open>oneof=\<close>, whatever the base, and the tag is
  the rules joined by commas; the \<open>Validate\<close> method of a simple type whose base is
  \<open>string\<close> still ends with the membership check over all the enum values. When the enum is
  not empty and no value holds such a character, the tag of a restriction checked against
  base \<open>string\<close> ends with its last rule, \<open>oneof=\<close> followed by the values joined by
  single blanks.
\<close>

theorem enum_whitespace_guard:
  "((\<exists>ev \<in> set (Enum r). ContainsAny ev enumWhitespace) \<longrightarrow>
      (\<forall>rule \<in> set (buildValidateRules E base r optional). \<not> HasPrefix rule ''oneof='')
      \<and> buildValidateTag E base (Some r) optional isSlice
          = (if buildValidateRules E base r optional = [] then ''''
             else Join ((if isSlice then [''dive''] else []) @ buildValidateRules E base r optional) '','')
      \<and> (\<exists>pre. Field (generateSimpleTypeValidator E typeName ''string'' (Some r) gen)
                  = Field gen @ pre @ membershipCheck E ''v'' typeName (Enum r)
                    @ tab @ ''return nil'' @ nl @ ''}'' @ nl))
   \<and> (Enum r \<noteq> [] \<and> (\<forall>ev \<in> set (Enum r). \<not> ContainsAny ev enumWhitespace) \<longrightarrow>
      last (buildValidateRules E ''string'' r optional) = ''oneof='' @ Join (Enum r) '' ''
      \<and> (\<exists>pre. buildValidateTag E ''string'' (Some r) optional isSlice
                  = pre @ ''oneof='' @ Join (Enum r) '' ''))"
proof (intro conjI impI)
  assume blank: "\<exists>ev \<in> set (Enum r). ContainsAny ev enumWhitespace"
  then have ne: "Enum r \<noteq> []" by auto
  then have has: "hasRestrictions (Some r)" by (simp add: hasRestrictions_def)
  show "\<forall>rule \<in> set (buildValidateRules E base r optional). \<not> HasPrefix rule ''oneof=''"
    using blank by (rule no_oneof_rule)
  show "buildValidateTag E base (Some r) optional isSlice
          = (if buildValidateRules E base r optional = [] then ''''
             else Join ((if isSlice then [''dive''] else []) @ buildValidateRules E base r optional) '','')"
    using has by (rule tag_from_rules)
  show "\<exists>pre. Field (generateSimpleTypeValidator E typeName ''string'' (Some r) gen)
                  = Field gen @ pre @ membershipCheck E ''v'' typeName (Enum r)
                    @ tab @ ''return nil'' @ nl @ ''}'' @ nl"
    using string_validator_text [OF has, of E typeName gen] ne by auto
next
  assume clean: "Enum r \<noteq> [] \<and> (\<forall>ev \<in> set (Enum r). \<not> ContainsAny ev enumWhitespace)"
  then have ne: "Enum r \<noteq> []" by simp
  then have has: "hasRestrictions (Some r)" by (simp add: hasRestrictions_def)
  from clean have scan: "enumScan (Enum r) [] = (True, Enum r)"
    using enumScan_clean [of "Enum r" "[]"] by simp
  obtain pre where rules: "buildValidateRules E ''string'' r optional
      = pre @ [''oneof='' @ Join (Enum r) '' '']"
    using string_rules [of E r optional] ne scan by auto
  then show "last (buildValidateRules E ''string'' r optional) = ''oneof='' @ Join (Enum r) '' ''"
    by simp
  have "buildValidateTag E ''string'' (Some r) optional isSlice
      = Join (((if isSlice then [''dive''] else []) @ pre) @ [''oneof='' @ Join (Enum r) '' '']) '',''"
    using tag_from_rules [OF has, of E "''string''" optional isSlice] rules by simp
  then show "\<exists>pre. buildValidateTag E ''string'' (Some r) optional isSlice
                  = pre @ ''oneof='' @ Join (Enum r) '' ''"
    using Join_snoc [of "(if isSlice then [''dive''] else []) @ pre" "''oneof='' @ Join (Enum r) '' ''" "'',''"]
    by auto
qed

text \<open>
  The cities, of which one is \<open>New York\<close>, give an empty tag and a method with the set
  literal; the state codes give the tag \<open>len=2,oneof=AA BB\<close>.
\<close>

theorem enum_whitespace_guard_witness:
  "(\<exists>ev \<in> set (Enum cityRestriction). ContainsAny ev enumWhitespace)
   \<and> buildValidateTag (exampleEnv id) ''string'' (Some cityRestriction) False False = ''''
   \<and> (\<exists>pre. Field (generateSimpleTypeValidator (exampleEnv id) ''TCity'' ''string''
                      (Some cityRestriction) timeGenerator)
               = Field timeGenerator @ pre
                 @ membershipCheck (exampleEnv id) ''v'' ''TCity'' (Enum cityRestriction)
                 @ tab @ ''return nil'' @ nl @ ''}'' @ nl)
   \<and> Enum stateRestriction \<noteq> []
   \<and> \<not> (\<exists>ev \<in> set (Enum stateRestriction). ContainsAny ev enumWhitespace)
   \<and> last (buildValidateRules (exampleEnv id) ''string'' stateRestriction False) = ''oneof=AA BB''
   \<and> buildValidateTag (exampleEnv id) ''string'' (Some stateRestriction) False False
       = ''len=2,oneof=AA BB''"
proof -
  have blank: "\<exists>ev \<in> set (Enum cityRestriction). ContainsAny ev enumWhitespace"
    by code_simp
  have clean: "Enum stateRestriction \<noteq> []
      \<and> (\<forall>ev \<in> set (Enum stateRestriction). \<not> ContainsAny ev enumWhitespace)"
    by code_simp
  have joined: "''oneof='' @ Join (Enum stateRestriction) '' '' = ''oneof=AA BB''"
    by code_simp
  have empty: "(if buildValidateRules (exampleEnv id) ''string'' cityRestriction False = [] then ''''
       else Join ((if False then [''dive''] else [])
                  @ buildValidateRules (exampleEnv id) ''string'' cityRestriction False) '','') = ''''"
    by code_simp
  have full: "buildValidateTag (exampleEnv id) ''string'' (Some stateRestriction) False False
       = ''len=2,oneof=AA BB''"
    by code_simp
  note city = enum_whitespace_guard
    [of cityRestriction "exampleEnv id" "''string''" False False "''TCity''" timeGenerator]
  note state = enum_whitespace_guard
    [of stateRestriction "exampleEnv id" "''string''" False False "''TState''" timeGenerator]
  from city blank have c1: "buildValidateTag (exampleEnv id) ''string'' (Some cityRestriction) False False
      = (if buildValidateRules (exampleEnv id) ''string'' cityRestriction False = [] then ''''
         else Join ((if False then [''dive''] else [])
                    @ buildValidateRules (exampleEnv id) ''string'' cityRestriction False) '','')"
    by blast
  from c1 empty have c2: "buildValidateTag (exampleEnv id) ''string'' (Some cityRestriction) False False = ''''"
    by (rule trans)
  from city blank have c3: "\<exists>pre. Field (generateSimpleTypeValidator (exampleEnv id) ''TCity'' ''string''
                      (Some cityRestriction) timeGenerator)
               = Field timeGenerator @ pre
                 @ membershipCheck (exampleEnv id) ''v'' ''TCity'' (Enum cityRestriction)
                 @ tab @ ''return nil'' @ nl @ ''}'' @ nl"
    by blast
  from state clean have "last (buildValidateRules (exampleEnv id) ''string'' stateRestriction False)
      = ''oneof='' @ Join (Enum stateRestriction) '' ''"
    by blast
  from this joined have s1: "last (buildValidateRules (exampleEnv id) ''string'' stateRestriction False)
      = ''oneof=AA BB''"
    by (rule trans)
  from clean have s0: "Enum stateRestriction \<noteq> []
      \<and> \<not> (\<exists>ev \<in> set (Enum stateRestriction). ContainsAny ev enumWhitespace)"
    by blast
  from blank c2 c3 s0 s1 full show ?thesis by blast
qed

text \<open>
  The claim as it was stated, for every restriction, fails at a simple type whose base is
  \<open>xs:int\<close> with the enumeration 1, 2: no value holds a blank, and yet the tag is empty and
  holds no \<open>oneof=\<close>; the method emitted for it has no membership check either.
\<close>

theorem numeric_enum_has_no_oneof:
  "Enum levelRestriction = [''1'', ''2'']
   \<and> \<not> ContainsAny ''1'' enumWhitespace \<and> \<not> ContainsAny ''2'' enumWhitespace
   \<and> buildValidateTag (exampleEnv id) ''int'' (Some levelRestriction) False False = ''''
   \<and> \<not> Contains (buildValidateTag (exampleEnv id) ''int'' (Some levelRestriction) False False) ''oneof=''
   \<and> Field (generateSimpleTypeValidator (exampleEnv id) ''TLevel'' ''int'' (Some levelRestriction)
               (newGenerator ''out.go'' []))
       = nl @ ''func (v TLevel) Validate() error {'' @ nl @ tab @ ''return nil'' @ nl @ ''}'' @ nl"
  by code_simp

section \<open>Facets that do not parse, or that have no simple type to go to\<close>

lemma fold_unchanged: "(\<And>x. x \<in> set xs \<Longrightarrow> f x s = s) \<Longrightarrow> fold f xs s = s"
  by (induction xs) auto

text \<open>
  C7. When no \<open>value\<close> attribute of a \<open>minInclusive\<close> or \<open>maxInclusive\<close> start element
  parses as a floating-point number, and when none of a \<open>maxLength\<close> or \<open>minLength\<close> start
  element parses as an integer, the handler returns no error and the whole state of the
  parser, the restriction of the open simple type included, is as it was. The same holds
  for any attributes when the stack of simple types is empty.
\<close>

theorem unparsable_or_unscoped_facet_is_ignored:
  "((\<forall>attr \<in> set attrs. fst attr = ''value'' \<longrightarrow> ParseFloat P (snd attr) = None) \<longrightarrow>
      OnMinInclusive P attrs tree opt = (None, opt) \<and> OnMaxInclusive P attrs tree opt = (None, opt))
   \<and> ((\<forall>attr \<in> set attrs. fst attr = ''value'' \<longrightarrow> Atoi P (snd attr) = None) \<longrightarrow>
      OnMaxLength P attrs tree opt = (None, opt) \<and> OnMinLength P attrs tree opt = (None, opt))
   \<and> (opt_SimpleType opt = [] \<longrightarrow>
      OnMinInclusive P attrs tree opt = (None, opt) \<and> OnMaxInclusive P attrs tree opt = (None, opt)
      \<and> OnMaxLength P attrs tree opt = (None, opt) \<and> OnMinLength P attrs tree opt = (None, opt))"
proof (intro conjI impI)
  assume h: "\<forall>attr \<in> set attrs. fst attr = ''value'' \<longrightarrow> ParseFloat P (snd attr) = None"
  show "OnMinInclusive P attrs tree opt = (None, opt)"
    unfolding OnMinInclusive_def using h
    by (simp add: fold_unchanged OnMinInclusive_attr_def split: list.splits)
  show "OnMaxInclusive P attrs tree opt = (None, opt)"
    unfolding OnMaxInclusive_def using h
    by (simp add: fold_unchanged OnMaxInclusive_attr_def split: list.splits)
next
  assume h: "\<forall>attr \<in> set attrs. fst attr = ''value'' \<longrightarrow> Atoi P (snd attr) = None"
  show "OnMaxLength P attrs tree opt = (None, opt)"
    unfolding OnMaxLength_def using h
    by (simp add: fold_unchanged OnMaxLength_attr_def split: list.splits)
  show "OnMinLength P attrs tree opt = (None, opt)"
    unfolding OnMinLength_def using h
    by (simp add: fold_unchanged OnMinLength_attr_def split: list.splits)
next
  assume h: "opt_SimpleType opt = []"
  show "OnMinInclusive P attrs tree opt = (None, opt)"
    unfolding OnMinInclusive_def using h
    by (simp add: fold_unchanged OnMinInclusive_attr_def)
  show "OnMaxInclusive P attrs tree opt = (None, opt)"
    unfolding OnMaxInclusive_def using h
    by (simp add: fold_unchanged OnMaxInclusive_attr_def)
  show "OnMaxLength P attrs tree opt = (None, opt)"
    unfolding OnMaxLength_def using h
    by (simp add: fold_unchanged OnMaxLength_attr_def)
  show "OnMinLength P attrs tree opt = (None, opt)"
    unfolding OnMinLength_def using h
    by (simp add: fold_unchanged OnMinLength_attr_def)
qed

text \<open>
  Inside \<open>tAge\<close> the value \<open>1x2\<close> is no number and changes nothing, while \<open>12\<close> is stored;
  with no simple type open, \<open>12\<close> changes nothing either.
\<close>

theorem unparsable_or_unscoped_facet_is_ignored_witness:
  "ParseFloat examplePenv ''1x2'' = None \<and> Atoi examplePenv ''1x2'' = None
   \<and> OnMinInclusive examplePenv [(''value'', ''1x2'')] [] ageOptions = (None, ageOptions)
   \<and> OnMaxInclusive examplePenv [(''value'', ''1x2'')] [] ageOptions = (None, ageOptions)
   \<and> OnMaxLength examplePenv [(''value'', ''1x2'')] [] ageOptions = (None, ageOptions)
   \<and> OnMinLength examplePenv [(''value'', ''1x2'')] [] ageOptions = (None, ageOptions)
   \<and> HasMin (st_Restriction (hd (opt_SimpleType
         (snd (OnMinInclusive examplePenv [(''value'', ''12'')] [] ageOptions)))))
   \<and> opt_SimpleType emptyOptions = []
   \<and> OnMinInclusive examplePenv [(''value'', ''12'')] [] emptyOptions = (None, emptyOptions)
   \<and> OnMaxInclusive examplePenv [(''value'', ''12'')] [] emptyOptions = (None, emptyOptions)
   \<and> OnMaxLength examplePenv [(''value'', ''12'')] [] emptyOptions = (None, emptyOptions)
   \<and> OnMinLength examplePenv [(''value'', ''12'')] [] emptyOptions = (None, emptyOptions)"
proof -
  have p: "ParseFloat examplePenv ''1x2'' = None \<and> Atoi examplePenv ''1x2'' = None"
    by code_simp
  then have f: "\<forall>attr \<in> set [(''value'', ''1x2'')]. fst attr = ''value''
      \<longrightarrow> ParseFloat examplePenv (snd attr) = None"
    by simp
  from p have i: "\<forall>attr \<in> set [(''value'', ''1x2'')]. fst attr = ''value''
      \<longrightarrow> Atoi examplePenv (snd attr) = None"
    by simp
  have stored: "HasMin (st_Restriction (hd (opt_SimpleType
         (snd (OnMinInclusive examplePenv [(''value'', ''12'')] [] ageOptions)))))"
    by code_simp
  have e: "opt_SimpleType emptyOptions = []"
    by (simp add: emptyOptions_def)
  note inside = unparsable_or_unscoped_facet_is_ignored
    [of "[(''value'', ''1x2'')]" examplePenv "[]" ageOptions]
  note outside = unparsable_or_unscoped_facet_is_ignored
    [of "[(''value'', ''12'')]" examplePenv "[]" emptyOptions]
  from inside f i have a: "OnMinInclusive examplePenv [(''value'', ''1x2'')] [] ageOptions = (None, ageOptions)
   \<and> OnMaxInclusive examplePenv [(''value'', ''1x2'')] [] ageOptions = (None, ageOptions)
   \<and> OnMaxLength examplePenv [(''value'', ''1x2'')] [] ageOptions = (None, ageOptions)
   \<and> OnMinLength examplePenv [(''value'', ''1x2'')] [] ageOptions = (None, ageOptions)"
    by blast
  from outside e have b: "OnMinInclusive examplePenv [(''value'', ''12'')] [] emptyOptions = (None, emptyOptions)
   \<and> OnMaxInclusive examplePenv [(''value'', ''12'')] [] emptyOptions = (None, emptyOptions)
   \<and> OnMaxLength examplePenv [(''value'', ''12'')] [] emptyOptions = (None, emptyOptions)
   \<and> OnMinLength examplePenv [(''value'', ''12'')] [] emptyOptions = (None, emptyOptions)"
    by blast
  from p a stored e b show ?thesis by blast
qed

section \<open>The order of the safety net's declarations\<close>

text \<open>
  C3. Two runs of \<open>GenGo\<close> on the same proto tree and configuration are to give the same
  bytes. In the shared output file the safety net declares the undeclared identifiers in
  the order in which \<open>range\<close> visits the keys of the map \<open>candidates\<close>, and Go fixes no such
  order. With two elements whose types \<open>tFoo\<close> and \<open>tBar\<close> are declared elsewhere, the run
  that visits \<open>TFoo\<close> first and the run that visits \<open>TBar\<close> first write different files.
\<close>

theorem safety_net_order_changes_output:
  "Field (GenGo_emit (exampleEnv id) commonGenerator)
     = nl @ ''// A ...'' @ nl @ ''type A'' @ tab @ ''*TFoo'' @ nl
       @ nl @ ''// B ...'' @ nl @ ''type B'' @ tab @ ''*TBar'' @ nl
       @ nl @ ''// TFoo ...'' @ nl @ ''type TFoo string'' @ nl
       @ nl @ ''// TBar ...'' @ nl @ ''type TBar string'' @ nl
   \<and> Field (GenGo_emit (exampleEnv rev) commonGenerator)
     = nl @ ''// A ...'' @ nl @ ''type A'' @ tab @ ''*TFoo'' @ nl
       @ nl @ ''// B ...'' @ nl @ ''type B'' @ tab @ ''*TBar'' @ nl
       @ nl @ ''// TBar ...'' @ nl @ ''type TBar string'' @ nl
       @ nl @ ''// TFoo ...'' @ nl @ ''type TFoo string'' @ nl
   \<and> out_err (fst (GenGo (exampleEnv id) commonGenerator)) = None
   \<and> out_err (fst (GenGo (exampleEnv rev) commonGenerator)) = None
   \<and> out_file (fst (GenGo (exampleEnv id) commonGenerator))
       \<noteq> out_file (fst (GenGo (exampleEnv rev) commonGenerator))"
  by code_simp

text \<open>The two files differ.\<close>

theorem safety_net_order_changes_output_witness:
  "out_file (fst (GenGo (exampleEnv id) commonGenerator))
     \<noteq> out_file (fst (GenGo (exampleEnv rev) commonGenerator))"
  using safety_net_order_changes_output by blast

section \<open>Inline simple types\<close>



lemma frame_InElement: "frame (opt\<lparr>opt_InElement := n\<rparr>) = frame opt"
  by (simp add: frame_def)
















end
